theory Spec2Isabelle
  imports Main "HOL-Library.Word"
begin

section \<open>Strings and the two regular expressions of the index parser\<close>

text \<open>
  A Go string is a sequence of bytes, modelled as \<^typ>\<open>string\<close>.  The characters the
  parser looks for (parentheses, comma, newline) are ASCII, so matching on bytes and
  matching on runes agree.
\<close>

definition HasPrefix :: "string \<Rightarrow> string \<Rightarrow> bool" where
  "HasPrefix s p \<longleftrightarrow> take (length p) s = p"

text \<open>
  \<^verbatim>\<open>strings.TrimSpace\<close> belongs to Go's standard library.  It removes the leading and
  the trailing runes that \<^verbatim>\<open>unicode.IsSpace\<close> accepts: U+0009 to U+000D, U+0020,
  U+0085, U+00A0, U+1680, U+2000 to U+200A, U+2028, U+2029, U+202F, U+205F and U+3000.
  The rune at the front (at the back) of a string is one of these exactly when the string
  starts (ends) with its UTF-8 encoding, so trimming is done on the encodings.
\<close>

definition white_space :: "string list" where
  "white_space =
     [[CHR 0x09], [CHR 0x0A], [CHR 0x0B], [CHR 0x0C], [CHR 0x0D], [CHR 0x20],
      [CHR 0xC2, CHR 0x85], [CHR 0xC2, CHR 0xA0],
      [CHR 0xE1, CHR 0x9A, CHR 0x80],
      [CHR 0xE2, CHR 0x80, CHR 0x80], [CHR 0xE2, CHR 0x80, CHR 0x81],
      [CHR 0xE2, CHR 0x80, CHR 0x82], [CHR 0xE2, CHR 0x80, CHR 0x83],
      [CHR 0xE2, CHR 0x80, CHR 0x84], [CHR 0xE2, CHR 0x80, CHR 0x85],
      [CHR 0xE2, CHR 0x80, CHR 0x86], [CHR 0xE2, CHR 0x80, CHR 0x87],
      [CHR 0xE2, CHR 0x80, CHR 0x88], [CHR 0xE2, CHR 0x80, CHR 0x89],
      [CHR 0xE2, CHR 0x80, CHR 0x8A],
      [CHR 0xE2, CHR 0x80, CHR 0xA8], [CHR 0xE2, CHR 0x80, CHR 0xA9],
      [CHR 0xE2, CHR 0x80, CHR 0xAF],
      [CHR 0xE2, CHR 0x81, CHR 0x9F],
      [CHR 0xE3, CHR 0x80, CHR 0x80]]"

lemma drop_prefix_shorter:
  "find (\<lambda>w. w \<noteq> [] \<and> HasPrefix s w) ws = Some w \<Longrightarrow> length (drop (length w) s) < length s"
proof -
  assume "find (\<lambda>w. w \<noteq> [] \<and> HasPrefix s w) ws = Some w"
  then have "w \<noteq> []" and "take (length w) s = w"
    by (auto simp add: find_Some_iff HasPrefix_def)
  then have "s \<noteq> []" and "0 < length w"
    by auto
  then show ?thesis
    by simp
qed

text \<open>Strip from the front of \<open>s\<close>, as long as there is one, a member of \<open>ws\<close>.\<close>

function strip_prefixes :: "string list \<Rightarrow> string \<Rightarrow> string" where
  "strip_prefixes ws s =
     (case find (\<lambda>w. w \<noteq> [] \<and> HasPrefix s w) ws of
        None \<Rightarrow> s
      | Some w \<Rightarrow> strip_prefixes ws (drop (length w) s))"
  by pat_completeness auto
termination
proof (relation "measure (\<lambda>(ws, s). length s)")
  show "wf (measure (\<lambda>(ws, s). length s))"
    by simp
next
  fix ws :: "string list" and s w :: string
  assume "find (\<lambda>w. w \<noteq> [] \<and> HasPrefix s w) ws = Some w"
  then have "length (drop (length w) s) < length s"
    by (rule drop_prefix_shorter)
  then show "((ws, drop (length w) s), (ws, s)) \<in> measure (\<lambda>(ws, s). length s)"
    by simp
qed

declare strip_prefixes.simps [simp del]

lemma strip_prefixes_Nil [simp]: "strip_prefixes ws [] = []"
proof -
  have "find (\<lambda>w. w \<noteq> [] \<and> HasPrefix [] w) ws = None"
    by (auto simp add: find_None_iff HasPrefix_def)
  then show ?thesis
    by (subst strip_prefixes.simps) simp
qed

lemma strip_prefixes_Cons [simp]:
  "strip_prefixes ws (c # cs) =
     (case find (\<lambda>w. w \<noteq> [] \<and> HasPrefix (c # cs) w) ws of
        None \<Rightarrow> c # cs
      | Some w \<Rightarrow> strip_prefixes ws (drop (length w) (c # cs)))"
  by (subst strip_prefixes.simps) simp

definition TrimSpace :: "string \<Rightarrow> string" where
  "TrimSpace s =
     rev (strip_prefixes (map rev white_space) (rev (strip_prefixes white_space s)))"

text \<open>\<^verbatim>\<open>strings.Index(s, ",")\<close> for a one-byte separator: the position of its first
  occurrence, \<open>None\<close> where Go returns \<open>-1\<close>.\<close>

fun Index :: "string \<Rightarrow> char \<Rightarrow> nat option" where
  "Index [] c = None"
| "Index (x # xs) c = (if x = c then Some 0 else map_option Suc (Index xs c))"

text \<open>
  In Go's regular expressions \<^verbatim>\<open>.\<close> matches every character but newline, \<^verbatim>\<open>.*\<close>
  is greedy, and the match returned is the leftmost one.  \<open>line_of s\<close> is the part of
  \<open>s\<close> that \<^verbatim>\<open>.*\<close> can run over.
\<close>

definition line_of :: "string \<Rightarrow> string" where
  "line_of s = takeWhile (\<lambda>c. c \<noteq> CHR 0x0A) s"

text \<open>\<open>greedy_close l\<close>: the longest prefix of \<open>l\<close> that is followed by \<^verbatim>\<open>)\<close>.\<close>

fun greedy_close :: "string \<Rightarrow> string option" where
  "greedy_close [] = None"
| "greedy_close (c # cs) =
     (case greedy_close cs of
        Some g \<Rightarrow> Some (c # g)
      | None \<Rightarrow> if c = CHR '')'' then Some [] else None)"

text \<open>\<open>greedy_dclose l\<close>: the longest prefix of \<open>l\<close> that is followed by \<^verbatim>\<open>))\<close>.\<close>

fun greedy_dclose :: "string \<Rightarrow> string option" where
  "greedy_dclose [] = None"
| "greedy_dclose (c # cs) =
     (case greedy_dclose cs of
        Some g \<Rightarrow> Some (c # g)
      | None \<Rightarrow> if c = CHR '')'' \<and> take 1 cs = '')'' then Some [] else None)"

text \<open>
  \<^verbatim>\<open>regexp.MustCompile(`\((.*)\)`).FindStringSubmatch(stmt)\<close>: the result is the
  first capture group, \<open>None\<close> where Go returns no match.
\<close>

fun FindStringSubmatch_paren :: "string \<Rightarrow> string option" where
  "FindStringSubmatch_paren [] = None"
| "FindStringSubmatch_paren (c # cs) =
     (if c = CHR ''(''
      then (case greedy_close (line_of cs) of
              Some g \<Rightarrow> Some g
            | None \<Rightarrow> FindStringSubmatch_paren cs)
      else FindStringSubmatch_paren cs)"

text \<open>
  \<^verbatim>\<open>regexp.MustCompile(`\(\(.*\)\)`).FindString(s)\<close>: the text of the leftmost
  match, the empty string where there is none.
\<close>

fun FindString_dparen :: "string \<Rightarrow> string" where
  "FindString_dparen [] = []"
| "FindString_dparen (c # cs) =
     (if c = CHR ''('' \<and> take 1 cs = ''(''
      then (case greedy_dclose (line_of (tl cs)) of
              Some g \<Rightarrow> ''(('' @ g @ ''))''
            | None \<Rightarrow> FindString_dparen cs)
      else FindString_dparen cs)"

section \<open>Errors\<close>

text \<open>
  Every error the modelled code builds is a constructor that carries the arguments of
  its format string; errors handed up from the database, the driver or the store are
  \<open>External\<close>.
\<close>

datatype error =
    External string
  | InvalidIndexStatement string
  | InvalidCreateDatabasePayload error
  | EmptyCreateDatabaseStatement
  | IssueNotFoundWithPipelineID int
  | FailedToFindProject int
  | ProjectNotFound int
  | FailedToRecordDatabaseLabels int
  | DatabaseRowNotFound int
  | FormatErrorWithQuery error
  | FailedToGetDatabases error
  | NotFound string
  | FailedToGetConnection string error
  | FailedToGetIndices string error
  | FailedToGetTables string error
  | FailedToGetViews string error
  | FailedToGetExtensions string error
  | GetTableConstraintsError error
  | GetTableError string string error
  | GetTableColumnsError string string error
  | ViewHasEmptyDefinition string string
  | GetPgViewError string string error
  | GetIndexError string string error
  | GetPrimaryError string string error
  | UnrecognizedIsNullable string

section \<open>The index column-expression parser\<close>

text \<open>One round of the loop in \<^verbatim>\<open>getIndexColumnExpressions\<close>: the token taken
  from the front of \<open>columnStmt\<close>.\<close>

definition get_token :: "string \<Rightarrow> string" where
  "get_token columnStmt =
     (if HasPrefix columnStmt ''((''
      then FindString_dparen columnStmt
      else (case Index columnStmt CHR '','' of
              None \<Rightarrow> columnStmt
            | Some i \<Rightarrow> take i columnStmt))"

text \<open>The rest of the round: drop the token, trim, drop one comma, trim.\<close>

definition strip_token :: "string \<Rightarrow> string \<Rightarrow> string" where
  "strip_token token columnStmt =
     (let columnStmt1 = TrimSpace (drop (length token) columnStmt);
          columnStmt2 = (if length columnStmt1 > 0 \<and> hd columnStmt1 = CHR '',''
                         then tl columnStmt1 else columnStmt1)
      in TrimSpace columnStmt2)"

lemma length_strip_prefixes: "length (strip_prefixes ws s) \<le> length s"
proof (induction ws s rule: strip_prefixes.induct)
  case (1 ws s)
  show ?case
  proof (cases "find (\<lambda>w. w \<noteq> [] \<and> HasPrefix s w) ws")
    case None
    then show ?thesis
      by (subst strip_prefixes.simps) simp
  next
    case (Some w)
    with "1" have "length (strip_prefixes ws (drop (length w) s)) \<le> length (drop (length w) s)"
      by simp
    with Some show ?thesis
      by (subst strip_prefixes.simps) simp
  qed
qed

lemma length_TrimSpace: "length (TrimSpace s) \<le> length s"
proof -
  have "length (strip_prefixes (map rev white_space) (rev (strip_prefixes white_space s)))
          \<le> length (strip_prefixes white_space s)"
    using length_strip_prefixes [of "map rev white_space" "rev (strip_prefixes white_space s)"]
    by simp
  also have "\<dots> \<le> length s"
    by (rule length_strip_prefixes)
  finally show ?thesis
    by (simp add: TrimSpace_def)
qed

lemma length_strip_token:
  "length (strip_token token columnStmt) \<le> length columnStmt - length token"
proof -
  let ?a = "TrimSpace (drop (length token) columnStmt)"
  let ?b = "if length ?a > 0 \<and> hd ?a = CHR '','' then tl ?a else ?a"
  have "length (TrimSpace ?b) \<le> length ?b"
    by (rule length_TrimSpace)
  also have "\<dots> \<le> length ?a"
    by simp
  also have "\<dots> \<le> length (drop (length token) columnStmt)"
    by (rule length_TrimSpace)
  finally show ?thesis
    by (simp add: strip_token_def Let_def)
qed

function column_loop :: "string \<Rightarrow> string \<Rightarrow> string list \<Rightarrow> error + string list" where
  "column_loop stmt columnStmt cols =
     (if length columnStmt = 0 then Inr cols
      else if length (get_token columnStmt) = 0 then Inl (InvalidIndexStatement stmt)
      else column_loop stmt (strip_token (get_token columnStmt) columnStmt)
             (cols @ [TrimSpace (get_token columnStmt)]))"
  by pat_completeness auto
termination
proof (relation "measure (\<lambda>(stmt, columnStmt, cols). length columnStmt)")
  show "wf (measure (\<lambda>(stmt, columnStmt, cols). length columnStmt))"
    by simp
next
  fix stmt columnStmt :: string and cols :: "string list"
  assume "length columnStmt \<noteq> 0" and "length (get_token columnStmt) \<noteq> 0"
  then have "length (strip_token (get_token columnStmt) columnStmt) < length columnStmt"
    using length_strip_token [of "get_token columnStmt" columnStmt] by arith
  then show "((stmt, strip_token (get_token columnStmt) columnStmt,
               cols @ [TrimSpace (get_token columnStmt)]), (stmt, columnStmt, cols))
             \<in> measure (\<lambda>(stmt, columnStmt, cols). length columnStmt)"
    by simp
qed

definition getIndexColumnExpressions :: "string \<Rightarrow> error + string list" where
  "getIndexColumnExpressions stmt =
     (case FindStringSubmatch_paren stmt of
        None \<Rightarrow> Inl (InvalidIndexStatement stmt)
      | Some columnStmt \<Rightarrow> column_loop stmt columnStmt [])"


section \<open>The database-create task executor\<close>

subsection \<open>Data of package \<open>api\<close> and \<open>db\<close> that the executor touches\<close>

text \<open>
  Only the fields that \<^verbatim>\<open>RunOnce\<close> reads or writes are kept.  Go's \<^verbatim>\<open>int\<close> is
  modelled as \<^typ>\<open>int\<close>: identifiers are only copied and compared.  The task's own
  \<^verbatim>\<open>task.Instance\<close> and \<^verbatim>\<open>instance.Environment\<close> are values that are always
  present.  What a lookup of the store returns is a pair of a pointer and an error, each
  of which may be nil (\<open>None\<close>).
\<close>

record TaskDatabaseCreatePayload =
  p_ProjectID :: int
  p_DatabaseName :: string
  p_Statement :: string
  p_CharacterSet :: string
  p_Collation :: string
  p_Labels :: string
  p_SchemaVersion :: string

record Instance =
  i_Name :: string
  i_EnvironmentID :: int
  i_Environment_Name :: string

record Task =
  t_ID :: int
  t_CreatorID :: int
  t_PipelineID :: int
  t_InstanceID :: int
  t_Instance :: Instance
  t_Payload :: string

datatype MigrationSource = UI
datatype MigrationType = Baseline

record MigrationInfo =
  mi_ReleaseVersion :: string
  mi_Version :: string
  mi_Namespace :: string
  mi_Database :: string
  mi_Environment :: string
  mi_Source :: MigrationSource
  mi_Type :: MigrationType
  mi_Description :: string
  mi_Creator :: string
  mi_IssueID :: string
  mi_CreateDatabase :: bool
  mi_Force :: bool

record Principal =
  pr_Name :: string

record Issue =
  is_ID :: int

record Project =
  pj_ID :: int

record DatabaseCreate =
  dc_CreatorID :: int
  dc_ProjectID :: int
  dc_InstanceID :: int
  dc_EnvironmentID :: int
  dc_Name :: string
  dc_CharacterSet :: string
  dc_Collation :: string
  dc_Labels :: "string option"
  dc_SchemaVersion :: string

record DatabasePatch =
  dp_ID :: int
  dp_UpdaterID :: int
  dp_ProjectID :: "int option"

record TaskPatch =
  tp_ID :: int
  tp_UpdaterID :: int
  tp_DatabaseID :: "int option"

text \<open>A database row of the store, with the attributes of the spec's data model
  (name, character set, collation, project reference, schema version) and those that
  \<^verbatim>\<open>DatabaseCreate\<close> hands over.\<close>

record Database =
  d_ID :: int
  d_CreatorID :: int
  d_ProjectID :: int
  d_InstanceID :: int
  d_EnvironmentID :: int
  d_Name :: string
  d_CharacterSet :: string
  d_Collation :: string
  d_Labels :: "string option"
  d_SchemaVersion :: string

text \<open>\<^verbatim>\<open>fmt.Sprintf("Created database %q", name)\<close> is kept as its format and
  argument.\<close>

datatype detail = Created_database string

record TaskRunResultPayload =
  r_Detail :: detail
  r_MigrationID :: int
  r_Version :: string

text \<open>\<^verbatim>\<open>strconv.Itoa\<close>: the decimal digits of an integer.\<close>

fun nat_digits :: "nat \<Rightarrow> string" where
  "nat_digits n =
     (if n < 10 then [''0123456789'' ! n]
      else nat_digits (n div 10) @ [''0123456789'' ! (n mod 10)])"

declare nat_digits.simps [simp del]

definition Itoa :: "int \<Rightarrow> string" where
  "Itoa i = (if i < 0 then CHR ''-'' # nat_digits (nat (- i)) else nat_digits (nat i))"


subsection \<open>The store\<close>

text \<open>
  Modelled from the spec: the store (package \<open>store\<close>) is not among the sources.  The
  spec's store contract gives find, create and patch for database and task rows, each
  synchronous and returning either a value or an error; a patch changes the attributes
  it names (here the project reference) and leaves the others untouched.  Audit columns
  (updater, timestamps) are not part of the spec's database row and are not modelled.
  Whether an operation fails is decided by the environment (\<open>store_fault\<close> below).
\<close>

record Store =
  database_rows :: "Database list"
  task_database_ids :: "int \<rightharpoonup> int"

datatype store_op = OpGetDatabase | OpCreateDatabase | OpPatchDatabase | OpPatchTask

text \<open>
  The server as \<^verbatim>\<open>RunOnce\<close> sees it.  What lies outside the sources is a
  parameter: the profile, the constant \<^verbatim>\<open>api.SystemBotID\<close>, the JSON decoder, the
  driver, the store's lookups of principal, issue and project, and
  \<^verbatim>\<open>server.setDatabaseLabels\<close>.  \<^verbatim>\<open>ExecuteMigration\<close> returns three values; the
  second is the one the spec's driver contract calls the version.

  Modelled from the spec: the schema sync is a second writer of database rows, in a
  process of its own (spec 4.2, step 4, and section 5).  \<open>concurrent_sync\<close> is what it
  writes to the store between the executor's find and the create or patch that follows;
  it is the identity when the sync writes nothing then.
\<close>

record Server =
  profile_Version :: string
  SystemBotID :: int
  json_Unmarshal :: "string \<Rightarrow> error + TaskDatabaseCreatePayload"
  getAdminDatabaseDriver :: "Instance \<Rightarrow> error option"
  ExecuteMigration :: "MigrationInfo \<Rightarrow> string \<Rightarrow> error + (int \<times> string)"
  GetPrincipalByID :: "int \<Rightarrow> Principal option \<times> error option"
  GetIssueByPipelineID :: "int \<Rightarrow> Issue option \<times> error option"
  GetProjectByID :: "int \<Rightarrow> Project option \<times> error option"
  setDatabaseLabels :: "string \<Rightarrow> Database \<Rightarrow> Project \<Rightarrow> int \<Rightarrow> bool \<Rightarrow> error option"
  store_fault :: "store_op \<Rightarrow> error option"
  concurrent_sync :: "Store \<Rightarrow> Store"

text \<open>A row is the row of an (instance, name) pair.\<close>

definition matches :: "int \<Rightarrow> string \<Rightarrow> Database \<Rightarrow> bool" where
  "matches instanceID name d \<longleftrightarrow> d_InstanceID d = instanceID \<and> d_Name d = name"

text \<open>Modelled from the spec: \<^verbatim>\<open>store.GetDatabase\<close> with a find on instance and
  name; no row is \<open>None\<close> (Go's nil).\<close>

definition store_GetDatabase :: "Server \<Rightarrow> Store \<Rightarrow> int \<Rightarrow> string \<Rightarrow> error + Database option" where
  "store_GetDatabase server st instanceID name =
     (case store_fault server OpGetDatabase of
        Some e \<Rightarrow> Inl e
      | None \<Rightarrow> Inr (find (matches instanceID name) (database_rows st)))"

text \<open>Modelled from the spec: the identifier the store gives to a new row; the store's
  own numbering is not among the sources, any identifier no row has would do.\<close>

definition fresh_ID :: "Database list \<Rightarrow> int" where
  "fresh_ID ds = 1 + fold max (map d_ID ds) 0"

text \<open>Modelled from the spec: \<^verbatim>\<open>store.CreateDatabase\<close> inserts one row built from
  the request, under an identifier no row has yet, and returns it.\<close>

definition store_CreateDatabase :: "Server \<Rightarrow> Store \<Rightarrow> DatabaseCreate \<Rightarrow> error + Database \<times> Store" where
  "store_CreateDatabase server st c =
     (case store_fault server OpCreateDatabase of
        Some e \<Rightarrow> Inl e
      | None \<Rightarrow>
          (let row = \<lparr>d_ID = fresh_ID (database_rows st), d_CreatorID = dc_CreatorID c,
                      d_ProjectID = dc_ProjectID c, d_InstanceID = dc_InstanceID c,
                      d_EnvironmentID = dc_EnvironmentID c, d_Name = dc_Name c,
                      d_CharacterSet = dc_CharacterSet c, d_Collation = dc_Collation c,
                      d_Labels = dc_Labels c, d_SchemaVersion = dc_SchemaVersion c\<rparr>
           in Inr (row, st\<lparr>database_rows := database_rows st @ [row]\<rparr>)))"

text \<open>Modelled from the spec: what a patch does to a row.  The project reference is
  replaced where the patch names one; nothing else of the row changes.\<close>

definition apply_DatabasePatch :: "DatabasePatch \<Rightarrow> Database \<Rightarrow> Database" where
  "apply_DatabasePatch p d =
     (case dp_ProjectID p of None \<Rightarrow> d | Some pid \<Rightarrow> d\<lparr>d_ProjectID := pid\<rparr>)"

text \<open>Modelled from the spec: \<^verbatim>\<open>store.PatchDatabase\<close> rewrites the row with the
  patch's identifier and returns it; no such row is an error.\<close>

definition store_PatchDatabase :: "Server \<Rightarrow> Store \<Rightarrow> DatabasePatch \<Rightarrow> error + Database \<times> Store" where
  "store_PatchDatabase server st p =
     (case store_fault server OpPatchDatabase of
        Some e \<Rightarrow> Inl e
      | None \<Rightarrow>
          (case find (\<lambda>d. d_ID d = dp_ID p) (database_rows st) of
             None \<Rightarrow> Inl (DatabaseRowNotFound (dp_ID p))
           | Some d \<Rightarrow>
               Inr (apply_DatabasePatch p d,
                    st\<lparr>database_rows :=
                         map (\<lambda>d. if d_ID d = dp_ID p then apply_DatabasePatch p d else d)
                           (database_rows st)\<rparr>)))"

text \<open>Modelled from the spec: \<^verbatim>\<open>store.PatchTask\<close> records the task's database
  reference.\<close>

definition store_PatchTask :: "Server \<Rightarrow> Store \<Rightarrow> TaskPatch \<Rightarrow> error + Store" where
  "store_PatchTask server st p =
     (case store_fault server OpPatchTask of
        Some e \<Rightarrow> Inl e
      | None \<Rightarrow>
          (case tp_DatabaseID p of
             None \<Rightarrow> Inr st
           | Some did \<Rightarrow> Inr (st\<lparr>task_database_ids := (task_database_ids st)(tp_ID p \<mapsto> did)\<rparr>)))"

text \<open>Modelled from the spec: a sync pass that discovers a database inserts its row,
  under the default project, unless the store has a row for that (instance, name)
  already.\<close>

definition sync_insert :: "Database \<Rightarrow> Store \<Rightarrow> Store" where
  "sync_insert row st =
     (case find (matches (d_InstanceID row) (d_Name row)) (database_rows st) of
        None \<Rightarrow> st\<lparr>database_rows := database_rows st @ [row]\<rparr>
      | Some found \<Rightarrow> st)"

subsection \<open>Effects\<close>

text \<open>What a run does to the outside, in order: the driver connection, log lines (by
  their message; \<open>LogError_of e\<close> is \<^verbatim>\<open>log.Error(err.Error(), ...)\<close>) and every
  call that writes, whether or not the call then fails.\<close>

datatype effect =
    DriverOpen
  | DriverClose
  | LogDebug string
  | LogError string
  | LogError_of error
  | Call_ExecuteMigration MigrationInfo string
  | Call_CreateDatabase DatabaseCreate
  | Call_PatchDatabase DatabasePatch
  | Call_PatchTask TaskPatch
  | Call_setDatabaseLabels string int


subsection \<open>\<^verbatim>\<open>RunOnce\<close>\<close>

record DatabaseCreateTaskExecutor =
  completed :: "32 word"

definition NewDatabaseCreateTaskExecutor :: DatabaseCreateTaskExecutor where
  "NewDatabaseCreateTaskExecutor = \<lparr>completed = 0\<rparr>"

definition IsCompleted :: "DatabaseCreateTaskExecutor \<Rightarrow> bool" where
  "IsCompleted exec \<longleftrightarrow> completed exec = 1"

text \<open>The three values a Go \<^verbatim>\<open>return\<close> of \<^verbatim>\<open>RunOnce\<close> hands back:
  \<^verbatim>\<open>terminated\<close>, \<^verbatim>\<open>result\<close> (nil is \<open>None\<close>) and \<^verbatim>\<open>err\<close> (nil is \<open>None\<close>).\<close>

type_synonym ret = "bool \<times> TaskRunResultPayload option \<times> error option"

text \<open>A call either returns, or panics on a nil pointer and returns nothing.\<close>

datatype outcome = Returned ret | Panicked

text \<open>The migration descriptor of lines 65 to 76; creator and issue are still empty.\<close>

definition new_MigrationInfo :: "Server \<Rightarrow> Task \<Rightarrow> TaskDatabaseCreatePayload \<Rightarrow> MigrationInfo" where
  "new_MigrationInfo server task payload =
     \<lparr>mi_ReleaseVersion = profile_Version server,
      mi_Version = p_SchemaVersion payload,
      mi_Namespace = p_DatabaseName payload,
      mi_Database = p_DatabaseName payload,
      mi_Environment = i_Environment_Name (t_Instance task),
      mi_Source = UI,
      mi_Type = Baseline,
      mi_Description = ''Create database'',
      mi_Creator = [],
      mi_IssueID = [],
      mi_CreateDatabase = True,
      mi_Force = True\<rparr>"

text \<open>Lines 77 to 87: the creator of the task.  With an error the lookup is logged and
  the descriptor left as it is.  Without an error the source reads \<^verbatim>\<open>creator.Name\<close>
  with no test of the pointer: on a nil principal this is a nil pointer dereference, and
  the result is \<open>None\<close>.\<close>

definition compose_creator ::
  "Server \<Rightarrow> Task \<Rightarrow> MigrationInfo \<Rightarrow> (MigrationInfo \<times> effect list) option" where
  "compose_creator server task mi =
     (case GetPrincipalByID server (t_CreatorID task) of
        (creator, Some e) \<Rightarrow>
          Some (mi, [LogError ''Failed to fetch creator for composing the migration info''])
      | (Some creator, None) \<Rightarrow> Some (mi\<lparr>mi_Creator := pr_Name creator\<rparr>, [])
      | (None, None) \<Rightarrow> None)"

text \<open>Lines 89 to 106: the issue of the task's pipeline.  The error and the nil issue
  are tested one after the other, as in the source.\<close>

definition compose_issue :: "Server \<Rightarrow> Task \<Rightarrow> MigrationInfo \<Rightarrow> MigrationInfo \<times> effect list" where
  "compose_issue server task mi =
     (let (issue, err) = GetIssueByPipelineID server (t_PipelineID task);
          log1 = (if err \<noteq> None
                  then [LogError ''Failed to fetch containing issue for composing the migration info'']
                  else [])
      in case issue of
           None \<Rightarrow>
             (mi, log1 @ [LogError_of (IssueNotFoundWithPipelineID (t_PipelineID task))])
         | Some i \<Rightarrow> (mi\<lparr>mi_IssueID := Itoa (is_ID i)\<rparr>, log1))"

text \<open>Lines 120 to 149: find the row of (instance, name); create it, or patch its
  project.  The find and the write are two calls of the store; what the sync writes
  between them is in the store when the write arrives.\<close>

definition reconcile_database ::
  "Server \<Rightarrow> Store \<Rightarrow> Task \<Rightarrow> TaskDatabaseCreatePayload \<Rightarrow> Store \<times> effect list \<times> (error + Database)" where
  "reconcile_database server st task payload =
     (case store_GetDatabase server st (t_InstanceID task) (p_DatabaseName payload) of
        Inl e \<Rightarrow> (st, [], Inl e)
      | Inr found \<Rightarrow>
          (let st1 = concurrent_sync server st
           in case found of
                None \<Rightarrow>
                  (let databaseCreate =
                         \<lparr>dc_CreatorID = SystemBotID server,
                          dc_ProjectID = p_ProjectID payload,
                          dc_InstanceID = t_InstanceID task,
                          dc_EnvironmentID = i_EnvironmentID (t_Instance task),
                          dc_Name = p_DatabaseName payload,
                          dc_CharacterSet = p_CharacterSet payload,
                          dc_Collation = p_Collation payload,
                          dc_Labels = Some (p_Labels payload),
                          dc_SchemaVersion = p_SchemaVersion payload\<rparr>
                   in case store_CreateDatabase server st1 databaseCreate of
                        Inl e \<Rightarrow> (st1, [Call_CreateDatabase databaseCreate], Inl e)
                      | Inr (createdDatabase, st') \<Rightarrow>
                          (st', [Call_CreateDatabase databaseCreate], Inr createdDatabase))
              | Some database \<Rightarrow>
                  (let databasePatch =
                         \<lparr>dp_ID = d_ID database, dp_UpdaterID = SystemBotID server,
                          dp_ProjectID = Some (p_ProjectID payload)\<rparr>
                   in case store_PatchDatabase server st1 databasePatch of
                        Inl e \<Rightarrow> (st1, [Call_PatchDatabase databasePatch], Inl e)
                      | Inr (updatedDatabase, st') \<Rightarrow>
                          (st', [Call_PatchDatabase databasePatch], Inr updatedDatabase))))"

text \<open>Lines 166 to 180: the labels, when the payload has any.\<close>

definition record_labels ::
  "Server \<Rightarrow> TaskDatabaseCreatePayload \<Rightarrow> Database \<Rightarrow> effect list \<times> error option" where
  "record_labels server payload database =
     (if p_Labels payload \<noteq> []
      then (case GetProjectByID server (p_ProjectID payload) of
              (_, Some e) \<Rightarrow> ([], Some (FailedToFindProject (p_ProjectID payload)))
            | (None, None) \<Rightarrow> ([], Some (ProjectNotFound (p_ProjectID payload)))
            | (Some project, None) \<Rightarrow>
                ([Call_setDatabaseLabels (p_Labels payload) (d_ID database)],
                 (case setDatabaseLabels server (p_Labels payload) database project
                         (d_CreatorID database) False of
                    Some e \<Rightarrow> Some (FailedToRecordDatabaseLabels (d_ID database))
                  | None \<Rightarrow> None)))
      else ([], None))"

text \<open>Lines 65 to 106: the descriptor with creator and issue, and what was logged on
  the way; \<open>None\<close> when reading the creator panics.\<close>

definition compose_MigrationInfo ::
  "Server \<Rightarrow> Task \<Rightarrow> TaskDatabaseCreatePayload \<Rightarrow> (MigrationInfo \<times> effect list) option" where
  "compose_MigrationInfo server task payload =
     (case compose_creator server task (new_MigrationInfo server task payload) of
        None \<Rightarrow> None
      | Some (mi1, log1) \<Rightarrow>
          (let (mi, log2) = compose_issue server task mi1
           in Some (mi, log1 @ log2)))"

text \<open>Lines 108 to 186: execute the migration, then record database, task and
  labels in the store.  The second value of \<^verbatim>\<open>ExecuteMigration\<close> is discarded
  (\<^verbatim>\<open>migrationID, _, err := ...\<close>).\<close>

definition migrate_and_record ::
  "Server \<Rightarrow> Store \<Rightarrow> Task \<Rightarrow> TaskDatabaseCreatePayload \<Rightarrow> MigrationInfo \<Rightarrow> string \<Rightarrow>
     Store \<times> effect list \<times> ret" where
  "migrate_and_record server st task payload mi statement =
     (let tr1 = [Call_ExecuteMigration mi statement]
      in case ExecuteMigration server mi statement of
           Inl e \<Rightarrow> (st, tr1, (True, None, Some e))
         | Inr (migrationID, _) \<Rightarrow>
             (case reconcile_database server st task payload of
                (st2, tr2, Inl e) \<Rightarrow> (st2, tr1 @ tr2, (True, None, Some e))
              | (st2, tr2, Inr database) \<Rightarrow>
                  (let taskDatabaseIDPatch =
                         \<lparr>tp_ID = t_ID task, tp_UpdaterID = SystemBotID server,
                          tp_DatabaseID = Some (d_ID database)\<rparr>;
                       tr3 = tr1 @ tr2 @ [Call_PatchTask taskDatabaseIDPatch]
                   in case store_PatchTask server st2 taskDatabaseIDPatch of
                        Inl e \<Rightarrow> (st2, tr3, (True, None, Some e))
                      | Inr st3 \<Rightarrow>
                          (case record_labels server payload database of
                             (tr4, Some e) \<Rightarrow> (st3, tr3 @ tr4, (True, None, Some e))
                           | (tr4, None) \<Rightarrow>
                               (st3, tr3 @ tr4,
                                (True,
                                 Some \<lparr>r_Detail = Created_database (p_DatabaseName payload),
                                       r_MigrationID = migrationID,
                                       r_Version = mi_Version mi\<rparr>,
                                 None))))))"

text \<open>Lines 57 to 186: the run once the driver is there.\<close>

definition run_with_driver ::
  "Server \<Rightarrow> Store \<Rightarrow> Task \<Rightarrow> TaskDatabaseCreatePayload \<Rightarrow> string \<Rightarrow>
     Store \<times> effect list \<times> outcome" where
  "run_with_driver server st task payload statement =
     (case compose_MigrationInfo server task payload of
        None \<Rightarrow> (st, [LogDebug ''Start creating database...''], Panicked)
      | Some (mi, logs) \<Rightarrow>
          (let (st', tr, r) = migrate_and_record server st task payload mi statement
           in (st', [LogDebug ''Start creating database...''] @ logs @ tr, Returned r)))"

text \<open>Lines 40 to 55, with the deferred \<^verbatim>\<open>driver.Close\<close> run on every way out once
  the driver is there, a panic included.\<close>

definition run_body :: "Server \<Rightarrow> Store \<Rightarrow> Task \<Rightarrow> Store \<times> effect list \<times> outcome" where
  "run_body server st task =
     (case json_Unmarshal server (t_Payload task) of
        Inl e \<Rightarrow> (st, [], Returned (True, None, Some (InvalidCreateDatabasePayload e)))
      | Inr payload \<Rightarrow>
          (let statement = TrimSpace (p_Statement payload)
           in if statement = []
              then (st, [], Returned (True, None, Some EmptyCreateDatabaseStatement))
              else (case getAdminDatabaseDriver server (t_Instance task) of
                      Some e \<Rightarrow> (st, [], Returned (True, None, Some e))
                    | None \<Rightarrow>
                        (let (st', tr, r) = run_with_driver server st task payload statement
                         in (st', [DriverOpen] @ tr @ [DriverClose], r)))))"

text \<open>The whole of \<^verbatim>\<open>RunOnce\<close>: the body, then the deferred
  \<^verbatim>\<open>atomic.StoreInt32(&exec.completed, 1)\<close>, which runs on a panic too.\<close>

definition RunOnce ::
  "DatabaseCreateTaskExecutor \<Rightarrow> Server \<Rightarrow> Store \<Rightarrow> Task \<Rightarrow>
     DatabaseCreateTaskExecutor \<times> Store \<times> effect list \<times> outcome" where
  "RunOnce exec server st task =
     (let (st', tr, r) = run_body server st task
      in (exec\<lparr>completed := 1\<rparr>, st', tr, r))"

text \<open>The parts of what \<^verbatim>\<open>RunOnce\<close> leaves behind.  \<open>result_of\<close> is the result a
  call hands back: \<open>None\<close> for a nil result and for a call that does not return.\<close>

definition exec_of :: "DatabaseCreateTaskExecutor \<times> Store \<times> effect list \<times> outcome \<Rightarrow> DatabaseCreateTaskExecutor" where
  "exec_of x = fst x"


definition trace_of :: "DatabaseCreateTaskExecutor \<times> Store \<times> effect list \<times> outcome \<Rightarrow> effect list" where
  "trace_of x = fst (snd (snd x))"

definition outcome_of :: "DatabaseCreateTaskExecutor \<times> Store \<times> effect list \<times> outcome \<Rightarrow> outcome" where
  "outcome_of x = snd (snd (snd x))"

definition outcome_result :: "outcome \<Rightarrow> TaskRunResultPayload option" where
  "outcome_result out = (case out of Returned (terminated, result, err) \<Rightarrow> result | Panicked \<Rightarrow> None)"

definition result_of :: "DatabaseCreateTaskExecutor \<times> Store \<times> effect list \<times> outcome \<Rightarrow> TaskRunResultPayload option" where
  "result_of x = outcome_result (outcome_of x)"


section \<open>The PostgreSQL schema sync\<close>

subsection \<open>Schema structures of \<^verbatim>\<open>sync.go\<close>\<close>

record pgDatabaseSchema =
  pgdb_name :: string
  pgdb_encoding :: string
  pgdb_collate :: string

record columnSchema =
  col_columnName :: string
  col_dataType :: string
  col_ordinalPosition :: int
  col_characterMaximumLength :: string
  col_columnDefault :: string
  col_isNullable :: bool
  col_collationName :: string
  col_comment :: string

record tableConstraint =
  con_name :: string
  con_schemaName :: string
  con_tableName :: string
  con_constraint :: string

record tableSchema =
  tbl_schemaName :: string
  tbl_name :: string
  tbl_tableowner :: string
  tbl_comment :: string
  tbl_rowCount :: "64 word"
  tbl_tableSizeByte :: "64 word"
  tbl_indexSizeByte :: "64 word"
  tbl_columns :: "columnSchema list"
  tbl_constraints :: "tableConstraint list"

record viewSchema =
  view_schemaName :: string
  view_name :: string
  view_definition :: string
  view_comment :: string

record indexSchema =
  idx_schemaName :: string
  idx_name :: string
  idx_tableName :: string
  idx_statement :: string
  idx_unique :: bool
  idx_primary :: bool
  idx_methodType :: string
  idx_columnExpressions :: "string list"
  idx_comment :: string

subsection \<open>Structures of package \<open>db\<close>, by the fields the sync fills\<close>

text \<open>\<^verbatim>\<open>db.Index\<close> is \<open>Index_\<close> here; \<open>Index\<close> is \<^verbatim>\<open>strings.Index\<close>.\<close>

record DatabaseMeta =
  dm_Name :: string
  dm_CharacterSet :: string
  dm_Collation :: string

record User =
  u_Name :: string
  u_Grant :: string

record InstanceMeta =
  im_Version :: string
  im_UserList :: "User list"
  im_DatabaseList :: "DatabaseMeta list"

record Column =
  c_Name :: string
  c_Position :: int
  c_Default :: "string option"
  c_Type :: string
  c_Nullable :: bool
  c_Collation :: string
  c_Comment :: string

record Index_ =
  ix_Name :: string
  ix_Expression :: string
  ix_Position :: int
  ix_Type :: string
  ix_Unique :: bool
  ix_Primary :: bool
  ix_Comment :: string

record Table =
  tb_Name :: string
  tb_Type :: string
  tb_Comment :: string
  tb_RowCount :: "64 word"
  tb_DataSize :: "64 word"
  tb_IndexSize :: "64 word"
  tb_ColumnList :: "Column list"
  tb_IndexList :: "Index_ list"

record View =
  v_Name :: string
  v_CreatedTs :: "64 word"
  v_Definition :: string
  v_Comment :: string

record Extension =
  e_Name :: string
  e_Version :: string
  e_Schema :: string
  e_Description :: string

record Schema =
  s_Name :: string
  s_CharacterSet :: string
  s_Collation :: string
  s_TableList :: "Table list"
  s_ViewList :: "View list"
  s_ExtensionList :: "Extension list"

subsection \<open>The database as the sync sees it\<close>

text \<open>
  \<^verbatim>\<open>sql.NullString\<close> is \<^typ>\<open>string option\<close>: \<open>None\<close> is SQL NULL (\<^verbatim>\<open>Valid\<close> false,
  \<^verbatim>\<open>String\<close> empty).

  A result set of \<^verbatim>\<open>database/sql\<close> is read by \<^verbatim>\<open>rows.Next\<close> and \<^verbatim>\<open>rows.Scan\<close>
  and closed by \<^verbatim>\<open>rows.Err\<close>: \<open>scans\<close> holds, row by row, what \<^verbatim>\<open>Scan\<close> yields or
  fails with, \<open>rows_err\<close> what \<^verbatim>\<open>rows.Err\<close> reports after the last row.
\<close>

definition NullString_String :: "string option \<Rightarrow> string" where
  "NullString_String ns = (case ns of None \<Rightarrow> [] | Some s \<Rightarrow> s)"

datatype 'r rows = Rows (scans: "(error + 'r) list") (rows_err: "error option")

text \<open>The loop \<^verbatim>\<open>for rows.Next() { Scan; body }\<close>: the first failing scan or body
  ends it.\<close>

fun rows_loop :: "('r \<Rightarrow> error + 'a) \<Rightarrow> (error + 'r) list \<Rightarrow> error + 'a list" where
  "rows_loop body [] = Inr []"
| "rows_loop body (Inl e # rest) = Inl e"
| "rows_loop body (Inr r # rest) =
     (case body r of
        Inl e \<Rightarrow> Inl e
      | Inr a \<Rightarrow> (case rows_loop body rest of Inl e \<Rightarrow> Inl e | Inr as \<Rightarrow> Inr (a # as)))"

text \<open>The loop followed by \<^verbatim>\<open>if err := rows.Err(); err != nil { return err }\<close>.\<close>

definition for_rows :: "('r \<Rightarrow> error + 'a) \<Rightarrow> 'r rows \<Rightarrow> error + 'a list" where
  "for_rows body rs =
     (case rows_loop body (scans rs) of
        Inl e \<Rightarrow> Inl e
      | Inr xs \<Rightarrow> (case rows_err rs of Some e \<Rightarrow> Inl e | None \<Rightarrow> Inr xs))"

record column_row =
  cr_columnName :: string
  cr_dataType :: string
  cr_ordinalPosition :: int
  cr_characterMaximumLength :: "string option"
  cr_columnDefault :: "string option"
  cr_isNullable :: string
  cr_collationName :: "string option"
  cr_udtSchema :: "string option"
  cr_udtName :: "string option"
  cr_comment :: "string option"

text \<open>
  A transaction answers each query of the sync; the answer to a query with arguments
  is a function of them.  Rows are tuples in the order of the \<^verbatim>\<open>Scan\<close> targets.
\<close>

record Tx =
  q_indexes :: "error + (string \<times> string \<times> string \<times> string) rows"
  q_index_comment :: "string \<Rightarrow> string \<Rightarrow> error + string option rows"
  q_is_primary :: "string \<Rightarrow> string \<Rightarrow> string \<Rightarrow> error + int"
  q_constraints :: "error + (string \<times> string \<times> string \<times> string) rows"
  q_tables :: "error + (string \<times> string \<times> string \<times> 64 word \<times> 64 word) rows"
  q_table_count :: "string \<Rightarrow> string \<Rightarrow> error + 64 word rows"
  q_table_comment :: "string \<Rightarrow> string \<Rightarrow> error + string option rows"
  q_columns :: "string \<Rightarrow> string \<Rightarrow> error + column_row rows"
  q_views :: "error + (string \<times> string \<times> string option) rows"
  q_view_comment :: "string \<Rightarrow> string \<Rightarrow> error + string option rows"
  q_extensions :: "error + Extension rows"
  tx_Commit :: "error option"

record SqlDB =
  BeginTx :: "error + Tx"

text \<open>
  The driver.  \<^verbatim>\<open>getVersion\<close>, \<^verbatim>\<open>getDatabases\<close> and \<^verbatim>\<open>GetDBConnection\<close> are
  methods declared outside \<^verbatim>\<open>sync.go\<close>: their results are given.  \<open>clock n\<close> is the
  \<open>n\<close>-th reading of \<^verbatim>\<open>time.Now().Unix()\<close>.
\<close>

record Driver =
  getVersion :: "error + string"
  q_users :: "error + (string \<times> string) rows"
  getDatabases :: "error + pgDatabaseSchema list"
  GetDBConnection :: "string \<Rightarrow> error + SqlDB"
  clock :: "nat \<Rightarrow> 64 word"


text \<open>A loop over a slice whose body may return an error: the first error ends it.\<close>

fun each :: "('a \<Rightarrow> error + 'b) \<Rightarrow> 'a list \<Rightarrow> error + 'b list" where
  "each body [] = Inr []"
| "each body (x # xs) =
     (case body x of
        Inl e \<Rightarrow> Inl e
      | Inr y \<Rightarrow> (case each body xs of Inl e \<Rightarrow> Inl e | Inr ys \<Rightarrow> Inr (y # ys)))"

text \<open>\<^verbatim>\<open>fmt.Sprintf("%s.%s", a, b)\<close>, the key of the maps below.\<close>

definition dotted :: "string \<Rightarrow> string \<Rightarrow> string" where
  "dotted a b = a @ ''.'' @ b"

text \<open>A Go map from strings to slices, read with the nil slice for a missing key.\<close>

definition append_at :: "string \<Rightarrow> 'a \<Rightarrow> (string \<Rightarrow> 'a list) \<Rightarrow> (string \<Rightarrow> 'a list)" where
  "append_at key x m = m(key := m key @ [x])"

subsection \<open>Indexes\<close>

fun Contains :: "string \<Rightarrow> string \<Rightarrow> bool" where
  "Contains [] sub \<longleftrightarrow> sub = []"
| "Contains (c # cs) sub \<longleftrightarrow> HasPrefix (c # cs) sub \<or> Contains cs sub"

text \<open>\<^verbatim>\<open>\w\<close> of Go's regular expressions.\<close>

definition isWord :: "char \<Rightarrow> bool" where
  "isWord c \<longleftrightarrow>
     c \<in> set ''0123456789ABCDEFGHIJKLMNOPQRSTUVWXYZ_abcdefghijklmnopqrstuvwxyz''"

text \<open>
  \<^verbatim>\<open>regexp.MustCompile(`USING (\w+) `).FindStringSubmatch(stmt)\<close>, by its capture
  group: the word after the leftmost \<^verbatim>\<open>USING \<close> that is followed by a word and a
  space.
\<close>

fun FindStringSubmatch_using :: "string \<Rightarrow> string option" where
  "FindStringSubmatch_using [] = None"
| "FindStringSubmatch_using (c # cs) =
     (if HasPrefix (c # cs) ''USING '' \<and> takeWhile isWord (drop 6 (c # cs)) \<noteq> []
         \<and> take 1 (dropWhile isWord (drop 6 (c # cs))) = '' ''
      then Some (takeWhile isWord (drop 6 (c # cs)))
      else FindStringSubmatch_using cs)"

definition getIndexMethodType :: "string \<Rightarrow> string" where
  "getIndexMethodType stmt =
     (case FindStringSubmatch_using stmt of None \<Rightarrow> [] | Some m \<Rightarrow> m)"

definition getIndex :: "Tx \<Rightarrow> indexSchema \<Rightarrow> error + indexSchema" where
  "getIndex txn idx =
     (case q_index_comment txn (idx_schemaName idx) (idx_name idx) of
        Inl e \<Rightarrow> Inl e
      | Inr rs \<Rightarrow>
          (case for_rows Inr rs of
             Inl e \<Rightarrow> Inl e
           | Inr comments \<Rightarrow>
               Inr (fold (\<lambda>comment i. i\<lparr>idx_comment := NullString_String comment\<rparr>) comments idx)))"

definition getPrimary :: "Tx \<Rightarrow> indexSchema \<Rightarrow> error + indexSchema" where
  "getPrimary txn idx =
     (case q_is_primary txn (idx_schemaName idx) (idx_name idx) (idx_tableName idx) of
        Inl e \<Rightarrow> Inl e
      | Inr yes \<Rightarrow> Inr (idx\<lparr>idx_primary := (yes = 1)\<rparr>))"

definition scan_index :: "string \<times> string \<times> string \<times> string \<Rightarrow> error + indexSchema" where
  "scan_index row =
     (case row of (schemaName, tableName, name, statement) \<Rightarrow>
        (case getIndexColumnExpressions statement of
           Inl e \<Rightarrow> Inl e
         | Inr columnExpressions \<Rightarrow>
             Inr \<lparr>idx_schemaName = schemaName, idx_name = name, idx_tableName = tableName,
                  idx_statement = statement,
                  idx_unique = Contains statement '' UNIQUE INDEX '',
                  idx_primary = False,
                  idx_methodType = getIndexMethodType statement,
                  idx_columnExpressions = columnExpressions,
                  idx_comment = []\<rparr>))"

definition getIndices :: "Tx \<Rightarrow> error + indexSchema list" where
  "getIndices txn =
     (case q_indexes txn of
        Inl e \<Rightarrow> Inl e
      | Inr rs \<Rightarrow>
          (case for_rows scan_index rs of
             Inl e \<Rightarrow> Inl e
           | Inr indices \<Rightarrow>
               each (\<lambda>idx.
                 case getIndex txn idx of
                   Inl e \<Rightarrow> Inl (GetIndexError (idx_schemaName idx) (idx_name idx) e)
                 | Inr idx1 \<Rightarrow>
                     (case getPrimary txn idx1 of
                        Inl e \<Rightarrow> Inl (GetPrimaryError (idx_schemaName idx) (idx_name idx) e)
                      | Inr idx2 \<Rightarrow> Inr idx2)) indices))"

subsection \<open>Tables\<close>

definition convertBoolFromYesNo :: "string \<Rightarrow> error + bool" where
  "convertBoolFromYesNo s =
     (if s = ''YES'' then Inr True
      else if s = ''NO'' then Inr False
      else Inl (UnrecognizedIsNullable s))"

definition scan_constraint :: "string \<times> string \<times> string \<times> string \<Rightarrow> error + tableConstraint" where
  "scan_constraint row =
     (case row of (schemaName, tableName, name, constraint) \<Rightarrow>
        Inr \<lparr>con_name = name, con_schemaName = schemaName,
             con_tableName =
               (case Index tableName CHR ''.'' of
                  None \<Rightarrow> tableName
                | Some i \<Rightarrow> drop (1 + i) tableName),
             con_constraint = constraint\<rparr>)"

definition getTableConstraints :: "Tx \<Rightarrow> error + (string \<Rightarrow> tableConstraint list)" where
  "getTableConstraints txn =
     (case q_constraints txn of
        Inl e \<Rightarrow> Inl e
      | Inr rs \<Rightarrow>
          (case for_rows scan_constraint rs of
             Inl e \<Rightarrow> Inl e
           | Inr cs \<Rightarrow>
               Inr (fold (\<lambda>c. append_at (dotted (con_schemaName c) (con_tableName c)) c)
                      cs (\<lambda>key. []))))"

definition scan_column :: "column_row \<Rightarrow> error + columnSchema" where
  "scan_column r =
     (case convertBoolFromYesNo (cr_isNullable r) of
        Inl e \<Rightarrow> Inl e
      | Inr isNullBool \<Rightarrow>
          Inr \<lparr>col_columnName = cr_columnName r,
               col_dataType =
                 (if cr_dataType r = ''USER-DEFINED''
                  then dotted (NullString_String (cr_udtSchema r)) (NullString_String (cr_udtName r))
                  else if cr_dataType r = ''ARRAY'' then NullString_String (cr_udtName r)
                  else cr_dataType r),
               col_ordinalPosition = cr_ordinalPosition r,
               col_characterMaximumLength = NullString_String (cr_characterMaximumLength r),
               col_columnDefault = NullString_String (cr_columnDefault r),
               col_isNullable = isNullBool,
               col_collationName = NullString_String (cr_collationName r),
               col_comment = NullString_String (cr_comment r)\<rparr>)"

definition getTableColumns :: "Tx \<Rightarrow> string \<Rightarrow> string \<Rightarrow> error + columnSchema list" where
  "getTableColumns txn schemaName tableName =
     (case q_columns txn schemaName tableName of
        Inl e \<Rightarrow> Inl e
      | Inr rs \<Rightarrow> for_rows scan_column rs)"

definition getTable :: "Tx \<Rightarrow> tableSchema \<Rightarrow> error + tableSchema" where
  "getTable txn tbl =
     (case q_table_count txn (tbl_schemaName tbl) (tbl_name tbl) of
        Inl e \<Rightarrow> Inl e
      | Inr rs \<Rightarrow>
          (case for_rows Inr rs of
             Inl e \<Rightarrow> Inl e
           | Inr counts \<Rightarrow>
               (case q_table_comment txn (tbl_schemaName tbl) (tbl_name tbl) of
                  Inl e \<Rightarrow> Inl e
                | Inr crows \<Rightarrow>
                    (case for_rows Inr crows of
                       Inl e \<Rightarrow> Inl e
                     | Inr comments \<Rightarrow>
                         Inr (fold (\<lambda>comment t. t\<lparr>tbl_comment := NullString_String comment\<rparr>)
                                comments
                                (fold (\<lambda>n t. t\<lparr>tbl_rowCount := n\<rparr>) counts tbl))))))"

definition scan_table ::
  "string \<times> string \<times> string \<times> 64 word \<times> 64 word \<Rightarrow> error + tableSchema" where
  "scan_table row =
     (case row of (schemaname, tablename, tableowner, tableSizeByte, indexSizeByte) \<Rightarrow>
        Inr \<lparr>tbl_schemaName = schemaname, tbl_name = tablename, tbl_tableowner = tableowner,
             tbl_comment = [], tbl_rowCount = 0, tbl_tableSizeByte = tableSizeByte,
             tbl_indexSizeByte = indexSizeByte, tbl_columns = [], tbl_constraints = []\<rparr>)"

definition getPgTables :: "Tx \<Rightarrow> error + tableSchema list" where
  "getPgTables txn =
     (case getTableConstraints txn of
        Inl e \<Rightarrow> Inl (GetTableConstraintsError e)
      | Inr constraints \<Rightarrow>
          (case q_tables txn of
             Inl e \<Rightarrow> Inl e
           | Inr rs \<Rightarrow>
               (case for_rows scan_table rs of
                  Inl e \<Rightarrow> Inl e
                | Inr tables \<Rightarrow>
                    each (\<lambda>tbl.
                      case getTable txn tbl of
                        Inl e \<Rightarrow> Inl (GetTableError (tbl_schemaName tbl) (tbl_name tbl) e)
                      | Inr tbl1 \<Rightarrow>
                          (case getTableColumns txn (tbl_schemaName tbl1) (tbl_name tbl1) of
                             Inl e \<Rightarrow>
                               Inl (GetTableColumnsError (tbl_schemaName tbl1) (tbl_name tbl1) e)
                           | Inr columns \<Rightarrow>
                               Inr (tbl1\<lparr>tbl_columns := columns,
                                         tbl_constraints :=
                                           constraints (dotted (tbl_schemaName tbl1) (tbl_name tbl1))\<rparr>)))
                      tables)))"

subsection \<open>Views and extensions\<close>

text \<open>The body of the loop in \<^verbatim>\<open>getViews\<close>: a NULL definition is an error.\<close>

definition scan_view :: "string \<times> string \<times> string option \<Rightarrow> error + viewSchema" where
  "scan_view row =
     (case row of (schemaName, name, def) \<Rightarrow>
        (case def of
           None \<Rightarrow> Inl (ViewHasEmptyDefinition schemaName name)
         | Some defString \<Rightarrow>
             Inr \<lparr>view_schemaName = schemaName, view_name = name,
                  view_definition = defString, view_comment = []\<rparr>))"

definition getView :: "Tx \<Rightarrow> viewSchema \<Rightarrow> error + viewSchema" where
  "getView txn view =
     (case q_view_comment txn (view_schemaName view) (view_name view) of
        Inl e \<Rightarrow> Inl e
      | Inr rs \<Rightarrow>
          (case for_rows Inr rs of
             Inl e \<Rightarrow> Inl e
           | Inr comments \<Rightarrow>
               Inr (fold (\<lambda>comment v. v\<lparr>view_comment := NullString_String comment\<rparr>) comments view)))"

definition getViews :: "Tx \<Rightarrow> error + viewSchema list" where
  "getViews txn =
     (case q_views txn of
        Inl e \<Rightarrow> Inl e
      | Inr rs \<Rightarrow>
          (case for_rows scan_view rs of
             Inl e \<Rightarrow> Inl e
           | Inr views \<Rightarrow>
               each (\<lambda>view.
                 case getView txn view of
                   Inl e \<Rightarrow> Inl (GetPgViewError (view_schemaName view) (view_name view) e)
                 | Inr view1 \<Rightarrow> Inr view1) views))"

definition getExtensions :: "Tx \<Rightarrow> error + Extension list" where
  "getExtensions txn =
     (case q_extensions txn of
        Inl e \<Rightarrow> Inl e
      | Inr rs \<Rightarrow> for_rows Inr rs)"


subsection \<open>\<^verbatim>\<open>SyncDBSchema\<close>\<close>

text \<open>What a sync pass does to the connection, in order.\<close>

datatype sync_event =
    Call_GetDBConnection string
  | Call_BeginTx
  | Tx_Commit
  | Tx_Rollback

text \<open>Lines 209 to 221: the index entries of a table, one per column expression.\<close>

definition index_entries :: "indexSchema \<Rightarrow> Index_ list" where
  "index_entries idx =
     map (\<lambda>(i, colExp).
            \<lparr>ix_Name = idx_name idx, ix_Expression = colExp, ix_Position = int i + 1,
             ix_Type = idx_methodType idx, ix_Unique = idx_unique idx,
             ix_Primary = idx_primary idx, ix_Comment = idx_comment idx\<rparr>)
         (enumerate 0 (idx_columnExpressions idx))"

text \<open>Lines 190 to 223: one table of the snapshot.\<close>

definition table_entry :: "(string \<Rightarrow> indexSchema list) \<Rightarrow> tableSchema \<Rightarrow> Table" where
  "table_entry indicesMap tbl =
     \<lparr>tb_Name = dotted (tbl_schemaName tbl) (tbl_name tbl),
      tb_Type = ''BASE TABLE'',
      tb_Comment = tbl_comment tbl,
      tb_RowCount = tbl_rowCount tbl,
      tb_DataSize = tbl_tableSizeByte tbl,
      tb_IndexSize = tbl_indexSizeByte tbl,
      tb_ColumnList =
        map (\<lambda>col. \<lparr>c_Name = col_columnName col, c_Position = col_ordinalPosition col,
                     c_Default = Some (col_columnDefault col), c_Type = col_dataType col,
                     c_Nullable = col_isNullable col, c_Collation = col_collationName col,
                     c_Comment = col_comment col\<rparr>) (tbl_columns tbl),
      tb_IndexList =
        concat (map index_entries (indicesMap (dotted (tbl_schemaName tbl) (tbl_name tbl))))\<rparr>"

text \<open>Lines 231 to 238: one view of the snapshot, stamped with the clock.\<close>

definition view_entry :: "Driver \<Rightarrow> nat \<times> viewSchema \<Rightarrow> View" where
  "view_entry driver iv =
     (case iv of (i, view) \<Rightarrow>
        \<lparr>v_Name = dotted (view_schemaName view) (view_name view),
         v_CreatedTs = clock driver i,
         v_Definition = view_definition view,
         v_Comment = view_comment view\<rparr>)"

text \<open>Lines 173 to 251: the pass inside the transaction.  \<open>schema\<close> comes with name,
  character set and collation filled in.\<close>

definition sync_in_tx :: "Driver \<Rightarrow> Tx \<Rightarrow> string \<Rightarrow> Schema \<Rightarrow> (error + Schema) \<times> sync_event list" where
  "sync_in_tx driver txn databaseName schema =
     (case getIndices txn of
        Inl e \<Rightarrow> (Inl (FailedToGetIndices databaseName e), [])
      | Inr indices \<Rightarrow>
          (let indicesMap =
                 fold (\<lambda>idx. append_at (dotted (idx_schemaName idx) (idx_tableName idx)) idx)
                   indices (\<lambda>key. [])
           in case getPgTables txn of
                Inl e \<Rightarrow> (Inl (FailedToGetTables databaseName e), [])
              | Inr tables \<Rightarrow>
                  (case getViews txn of
                     Inl e \<Rightarrow> (Inl (FailedToGetViews databaseName e), [])
                   | Inr views \<Rightarrow>
                       (case getExtensions txn of
                          Inl e \<Rightarrow> (Inl (FailedToGetExtensions databaseName e), [])
                        | Inr extensions \<Rightarrow>
                            (case tx_Commit txn of
                               Some e \<Rightarrow> (Inl e, [Tx_Commit])
                             | None \<Rightarrow>
                                 (Inr (schema
                                        \<lparr>s_TableList := map (table_entry indicesMap) tables,
                                         s_ViewList := map (view_entry driver) (enumerate 0 views),
                                         s_ExtensionList := extensions\<rparr>),
                                  [Tx_Commit]))))))"

text \<open>The whole of \<^verbatim>\<open>SyncDBSchema\<close>.  The deferred \<^verbatim>\<open>txn.Rollback()\<close> runs on every
  way out once the transaction has begun.\<close>

definition SyncDBSchema :: "Driver \<Rightarrow> string \<Rightarrow> (error + Schema) \<times> sync_event list" where
  "SyncDBSchema driver databaseName =
     (case getDatabases driver of
        Inl e \<Rightarrow> (Inl (FailedToGetDatabases e), [])
      | Inr databases \<Rightarrow>
          (case find (\<lambda>database. pgdb_name database = databaseName) databases of
             None \<Rightarrow> (Inl (NotFound databaseName), [])
           | Some database \<Rightarrow>
               (let schema = \<lparr>s_Name = databaseName,
                              s_CharacterSet = pgdb_encoding database,
                              s_Collation = pgdb_collate database,
                              s_TableList = [], s_ViewList = [], s_ExtensionList = []\<rparr>
                in case GetDBConnection driver databaseName of
                     Inl e \<Rightarrow>
                       (Inl (FailedToGetConnection databaseName e),
                        [Call_GetDBConnection databaseName])
                   | Inr sqldb \<Rightarrow>
                       (case BeginTx sqldb of
                          Inl e \<Rightarrow> (Inl e, [Call_GetDBConnection databaseName, Call_BeginTx])
                        | Inr txn \<Rightarrow>
                            (let (r, tr) = sync_in_tx driver txn databaseName schema
                             in (r, [Call_GetDBConnection databaseName, Call_BeginTx] @ tr @
                                    [Tx_Rollback]))))))"

subsection \<open>\<^verbatim>\<open>SyncInstance\<close>\<close>

text \<open>The package variable \<^verbatim>\<open>excludedDatabaseList\<close> as the program starts.\<close>

definition excludedDatabaseList :: "string \<rightharpoonup> bool" where
  "excludedDatabaseList =
     [''bytebase'' \<mapsto> True, ''rdsadmin'' \<mapsto> True, ''cloudsql'' \<mapsto> True,
      ''cloudsqladmin'' \<mapsto> True]"

definition getUserList :: "Driver \<Rightarrow> error + User list" where
  "getUserList driver =
     (case q_users driver of
        Inl e \<Rightarrow> Inl (FormatErrorWithQuery e)
      | Inr rs \<Rightarrow> for_rows (\<lambda>(role, attr). Inr \<lparr>u_Name = role, u_Grant = attr\<rparr>) rs)"

text \<open>Lines 116 to 130: the loop over the databases of the instance.\<close>

definition collect_databases :: "(string \<rightharpoonup> bool) \<Rightarrow> pgDatabaseSchema list \<Rightarrow> DatabaseMeta list" where
  "collect_databases excluded databases =
     fold (\<lambda>database databaseList.
             if excluded (pgdb_name database) \<noteq> None then databaseList
             else databaseList @
                    [\<lparr>dm_Name = pgdb_name database,
                      dm_CharacterSet = pgdb_encoding database,
                      dm_Collation = pgdb_collate database\<rparr>])
          databases []"

text \<open>
  \<^verbatim>\<open>SyncInstance\<close>.  The map \<^verbatim>\<open>systemDatabases\<close> is declared outside \<^verbatim>\<open>sync.go\<close>:
  its keys are the parameter \<open>systemDatabases\<close>.  The package variable
  \<^verbatim>\<open>excludedDatabaseList\<close> is state: it comes in as \<open>excluded\<close> and goes out as
  the second component.
\<close>

definition SyncInstance ::
  "string list \<Rightarrow> (string \<rightharpoonup> bool) \<Rightarrow> Driver \<Rightarrow> (error + InstanceMeta) \<times> (string \<rightharpoonup> bool)" where
  "SyncInstance systemDatabases excluded driver =
     (case getVersion driver of
        Inl e \<Rightarrow> (Inl e, excluded)
      | Inr version \<Rightarrow>
          (case getUserList driver of
             Inl e \<Rightarrow> (Inl e, excluded)
           | Inr userList \<Rightarrow>
               (let excluded' = fold (\<lambda>k m. m(k \<mapsto> True)) systemDatabases excluded
                in case getDatabases driver of
                     Inl e \<Rightarrow> (Inl (FailedToGetDatabases e), excluded')
                   | Inr databases \<Rightarrow>
                       (Inr \<lparr>im_Version = version, im_UserList = userList,
                             im_DatabaseList = collect_databases excluded' databases\<rparr>,
                        excluded'))))"

section \<open>Concrete inputs\<close>

text \<open>A create-database task for database \<open>shop\<close> on instance 2, project 7, and a server
  on which the lookups of creator and issue both fail with an error while driver and
  store work and no sync writes.  The driver answers \<open>v2\<close> as the second value of
  \<^verbatim>\<open>ExecuteMigration\<close>.\<close>

definition ex_payload :: TaskDatabaseCreatePayload where
  "ex_payload =
     \<lparr>p_ProjectID = 7, p_DatabaseName = ''shop'', p_Statement = '' CREATE DATABASE shop; '',
      p_CharacterSet = ''UTF8'', p_Collation = ''C'', p_Labels = [], p_SchemaVersion = ''v1''\<rparr>"

definition ex_task :: Task where
  "ex_task =
     \<lparr>t_ID = 11, t_CreatorID = 3, t_PipelineID = 5, t_InstanceID = 2,
      t_Instance = \<lparr>i_Name = ''pg'', i_EnvironmentID = 4, i_Environment_Name = ''prod''\<rparr>,
      t_Payload = ''{}''\<rparr>"

definition ex_server :: Server where
  "ex_server =
     \<lparr>profile_Version = ''1.2.0'', SystemBotID = 1,
      json_Unmarshal = (\<lambda>s. Inr ex_payload),
      getAdminDatabaseDriver = (\<lambda>i. None),
      ExecuteMigration = (\<lambda>mi stmt. Inr (42, ''v2'')),
      GetPrincipalByID = (\<lambda>i. (None, Some (External ''principal''))),
      GetIssueByPipelineID = (\<lambda>i. (None, Some (External ''issue''))),
      GetProjectByID = (\<lambda>i. (Some \<lparr>pj_ID = i\<rparr>, None)),
      setDatabaseLabels = (\<lambda>labels database project updater validateOnly. None),
      store_fault = (\<lambda>op. None),
      concurrent_sync = (\<lambda>st. st)\<rparr>"

text \<open>The same server with a store that finds no principal and reports no error.\<close>

definition ex_nil_principal_server :: Server where
  "ex_nil_principal_server = ex_server\<lparr>GetPrincipalByID := (\<lambda>i. (None, None))\<rparr>"

text \<open>The row a schema sync leaves for \<open>shop\<close>, under project 1.\<close>

definition ex_synced_row :: Database where
  "ex_synced_row =
     \<lparr>d_ID = 9, d_CreatorID = 1, d_ProjectID = 1, d_InstanceID = 2, d_EnvironmentID = 4,
      d_Name = ''shop'', d_CharacterSet = ''LATIN1'', d_Collation = ''en_US'', d_Labels = None,
      d_SchemaVersion = []\<rparr>"

definition ex_store :: "Database list \<Rightarrow> Store" where
  "ex_store rows = \<lparr>database_rows = rows, task_database_ids = Map.empty\<rparr>"

text \<open>The same server with a sync that discovers \<open>shop\<close> between the executor's find
  and its write.\<close>

definition ex_racing_server :: Server where
  "ex_racing_server = ex_server\<lparr>concurrent_sync := sync_insert ex_synced_row\<rparr>"

text \<open>The same task with a statement of white space only.\<close>

definition ex_blank_payload :: TaskDatabaseCreatePayload where
  "ex_blank_payload = ex_payload\<lparr>p_Statement := [CHR '' '', CHR 0x09, CHR 0x0A]\<rparr>"

definition ex_blank_server :: Server where
  "ex_blank_server = ex_server\<lparr>json_Unmarshal := (\<lambda>s. Inr ex_blank_payload)\<rparr>"

text \<open>A PostgreSQL instance with five databases; \<open>shop\<close> has one table, one index and
  one view, whose definition is the parameter (\<open>None\<close> is NULL).\<close>

definition ex_column :: column_row where
  "ex_column =
     \<lparr>cr_columnName = ''id'', cr_dataType = ''integer'', cr_ordinalPosition = 1,
      cr_characterMaximumLength = None, cr_columnDefault = None, cr_isNullable = ''NO'',
      cr_collationName = None, cr_udtSchema = Some ''pg_catalog'', cr_udtName = Some ''int4'',
      cr_comment = None\<rparr>"

definition ex_tx :: "string option \<Rightarrow> Tx" where
  "ex_tx viewdef =
     \<lparr>q_indexes = Inr (Rows [Inr (''public'', ''t'', ''t_pkey'',
                     ''CREATE UNIQUE INDEX t_pkey ON public.t USING btree (id)'')] None),
      q_index_comment = (\<lambda>s n. Inr (Rows [Inr None] None)),
      q_is_primary = (\<lambda>s n t. Inr 1),
      q_constraints = Inr (Rows [Inr (''public'', ''t'', ''t_pkey'', ''PRIMARY KEY (id)'')] None),
      q_tables = Inr (Rows [Inr (''public'', ''t'', ''admin'', 8192, 16384)] None),
      q_table_count = (\<lambda>s n. Inr (Rows [Inr 3] None)),
      q_table_comment = (\<lambda>s n. Inr (Rows [Inr None] None)),
      q_columns = (\<lambda>s n. Inr (Rows [Inr ex_column] None)),
      q_views = Inr (Rows [Inr (''public'', ''v'', viewdef)] None),
      q_view_comment = (\<lambda>s n. Inr (Rows [Inr None] None)),
      q_extensions = Inr (Rows [] None),
      tx_Commit = None\<rparr>"

definition ex_databases :: "pgDatabaseSchema list" where
  "ex_databases =
     [\<lparr>pgdb_name = ''postgres'', pgdb_encoding = ''UTF8'', pgdb_collate = ''C''\<rparr>,
      \<lparr>pgdb_name = ''bytebase'', pgdb_encoding = ''UTF8'', pgdb_collate = ''C''\<rparr>,
      \<lparr>pgdb_name = ''Bytebase'', pgdb_encoding = ''LATIN1'', pgdb_collate = ''de_DE''\<rparr>,
      \<lparr>pgdb_name = ''template0'', pgdb_encoding = ''UTF8'', pgdb_collate = ''C''\<rparr>,
      \<lparr>pgdb_name = ''shop'', pgdb_encoding = ''UTF8'', pgdb_collate = ''en_US''\<rparr>]"

definition ex_driver :: "string option \<Rightarrow> Driver" where
  "ex_driver viewdef =
     \<lparr>getVersion = Inr ''14.2'',
      q_users = Inr (Rows [Inr (''admin'', ''superuser'')] None),
      getDatabases = Inr ex_databases,
      GetDBConnection = (\<lambda>name. Inr \<lparr>BeginTx = Inr (ex_tx viewdef)\<rparr>),
      clock = (\<lambda>n. 1700000000)\<rparr>"

definition ex_snapshot :: "string \<Rightarrow> Schema" where
  "ex_snapshot viewdef =
     \<lparr>s_Name = ''shop'', s_CharacterSet = ''UTF8'', s_Collation = ''en_US'',
      s_TableList =
        [\<lparr>tb_Name = ''public.t'', tb_Type = ''BASE TABLE'', tb_Comment = [],
          tb_RowCount = 3, tb_DataSize = 8192, tb_IndexSize = 16384,
          tb_ColumnList =
            [\<lparr>c_Name = ''id'', c_Position = 1, c_Default = Some [], c_Type = ''integer'',
              c_Nullable = False, c_Collation = [], c_Comment = []\<rparr>],
          tb_IndexList =
            [\<lparr>ix_Name = ''t_pkey'', ix_Expression = ''id'', ix_Position = 1,
              ix_Type = ''btree'', ix_Unique = True, ix_Primary = True, ix_Comment = []\<rparr>]\<rparr>],
      s_ViewList =
        [\<lparr>v_Name = ''public.v'', v_CreatedTs = 1700000000, v_Definition = viewdef,
          v_Comment = []\<rparr>],
      s_ExtensionList = []\<rparr>"

section \<open>Auxiliary facts\<close>

subsection \<open>Unfolding the definitions on concrete inputs\<close>

lemmas ex_defs = ex_payload_def ex_task_def ex_server_def ex_synced_row_def ex_store_def
  ex_nil_principal_server_def ex_racing_server_def

lemmas run_defs = RunOnce_def run_body_def run_with_driver_def compose_MigrationInfo_def
  compose_creator_def compose_issue_def new_MigrationInfo_def migrate_and_record_def
  reconcile_database_def store_GetDatabase_def store_CreateDatabase_def store_PatchDatabase_def
  store_PatchTask_def apply_DatabasePatch_def record_labels_def matches_def sync_insert_def
  TrimSpace_def white_space_def HasPrefix_def fresh_ID_def Let_def

lemmas sync_defs = SyncDBSchema_def sync_in_tx_def getIndices_def getIndex_def getPrimary_def
  scan_index_def getIndexColumnExpressions_def get_token_def strip_token_def
  TrimSpace_def white_space_def HasPrefix_def line_of_def getIndexMethodType_def isWord_def for_rows_def
  getPgTables_def getTableConstraints_def scan_constraint_def getTable_def getTableColumns_def
  scan_column_def scan_table_def convertBoolFromYesNo_def getViews_def scan_view_def getView_def
  getExtensions_def table_entry_def index_entries_def view_entry_def dotted_def append_at_def
  NullString_String_def Let_def

lemma ex_sync:
  "SyncDBSchema (ex_driver (Some viewdef)) ''shop'' =
     (Inr (ex_snapshot viewdef),
      [Call_GetDBConnection ''shop'', Call_BeginTx, Tx_Commit, Tx_Rollback])"
  by (simp add: ex_driver_def ex_databases_def ex_tx_def ex_column_def ex_snapshot_def sync_defs
      enumerate_eq_zip)

subsection \<open>The executor\<close>

lemma compose_MigrationInfo_Version:
  "compose_MigrationInfo server task payload = Some (mi, logs) \<Longrightarrow>
     mi_Version mi = p_SchemaVersion payload"
  by (auto simp add: compose_MigrationInfo_def compose_issue_def compose_creator_def
      new_MigrationInfo_def Let_def split: option.splits prod.splits)

lemma compose_MigrationInfo_None:
  "compose_MigrationInfo server task payload = None \<longleftrightarrow>
     GetPrincipalByID server (t_CreatorID task) = (None, None)"
  by (cases "GetPrincipalByID server (t_CreatorID task)")
    (auto simp add: compose_MigrationInfo_def compose_creator_def Let_def case_prod_beta
      split: option.splits)

lemma RunOnce_with_driver:
  assumes "json_Unmarshal server (t_Payload task) = Inr payload"
      and "TrimSpace (p_Statement payload) \<noteq> []"
      and "getAdminDatabaseDriver server (t_Instance task) = None"
      and "compose_MigrationInfo server task payload = Some (mi, logs)"
      and "migrate_and_record server st task payload mi (TrimSpace (p_Statement payload)) =
             (st', tr, r)"
  shows "RunOnce exec server st task =
           (exec\<lparr>completed := 1\<rparr>, st',
            [DriverOpen, LogDebug ''Start creating database...''] @ logs @ tr @ [DriverClose],
            Returned r)"
  using assms
  by (simp add: RunOnce_def run_body_def run_with_driver_def Let_def)

lemma migrate_and_record_terminated:
  "fst (snd (snd (migrate_and_record server st task payload mi statement)))"
  by (simp add: migrate_and_record_def Let_def split: sum.split prod.split option.split)

lemma run_with_driver_outcome:
  "snd (snd (run_with_driver server st task payload statement)) = Panicked \<and>
     compose_MigrationInfo server task payload = None \<or>
   (\<exists>result err. snd (snd (run_with_driver server st task payload statement)) =
      Returned (True, result, err)) \<and>
     compose_MigrationInfo server task payload \<noteq> None"
proof (cases "compose_MigrationInfo server task payload")
  case None
  then show ?thesis
    by (simp add: run_with_driver_def)
next
  case (Some composed)
  obtain mi logs where composed: "composed = (mi, logs)"
    by (cases composed) auto
  obtain st' tr t result err where
    m: "migrate_and_record server st task payload mi statement = (st', tr, t, result, err)"
    by (cases "migrate_and_record server st task payload mi statement") auto
  with migrate_and_record_terminated [of server st task payload mi statement]
  have "t" by simp
  with Some composed m show ?thesis
    by (simp add: run_with_driver_def)
qed

lemma run_body_outcome:
  "snd (snd (run_body server st task)) = Panicked \<or>
   (\<exists>result err. snd (snd (run_body server st task)) = Returned (True, result, err))"
proof (cases "json_Unmarshal server (t_Payload task)")
  case (Inl e)
  then show ?thesis
    by (simp add: run_body_def)
next
  case (Inr payload)
  show ?thesis
    using Inr run_with_driver_outcome [of server st task payload "TrimSpace (p_Statement payload)"]
    by (auto simp add: run_body_def Let_def case_prod_beta split: option.split)
qed

lemma run_body_Panicked:
  "snd (snd (run_body server st task)) = Panicked \<longleftrightarrow>
     (\<exists>payload. json_Unmarshal server (t_Payload task) = Inr payload \<and>
        TrimSpace (p_Statement payload) \<noteq> [] \<and>
        getAdminDatabaseDriver server (t_Instance task) = None \<and>
        GetPrincipalByID server (t_CreatorID task) = (None, None))"
proof (cases "json_Unmarshal server (t_Payload task)")
  case (Inl e)
  then show ?thesis
    by (simp add: run_body_def)
next
  case (Inr payload)
  show ?thesis
    using Inr run_with_driver_outcome [of server st task payload "TrimSpace (p_Statement payload)"]
      compose_MigrationInfo_None [of server task payload]
    by (auto simp add: run_body_def Let_def case_prod_beta split: option.split)
qed

lemma run_body_result:
  assumes "json_Unmarshal server (t_Payload task) = Inr payload"
      and "outcome_result (snd (snd (run_body server st task))) = Some res"
  shows "TrimSpace (p_Statement payload) \<noteq> [] \<and>
         getAdminDatabaseDriver server (t_Instance task) = None \<and>
         (\<exists>mi logs. compose_MigrationInfo server task payload = Some (mi, logs))"
  using assms
  by (auto simp add: run_body_def run_with_driver_def outcome_result_def Let_def case_prod_beta
      split: if_splits option.splits)

lemma migrate_and_record_result:
  assumes "fst (snd (snd (snd (migrate_and_record server st task payload mi statement)))) = Some res"
  shows "\<exists>migrationID echoed.
           ExecuteMigration server mi statement = Inr (migrationID, echoed) \<and>
           res = \<lparr>r_Detail = Created_database (p_DatabaseName payload),
                  r_MigrationID = migrationID, r_Version = mi_Version mi\<rparr> \<and>
           snd (snd (migrate_and_record server st task payload mi statement)) =
             (True, Some res, None)"
  using assms
  by (auto simp add: migrate_and_record_def Let_def split: sum.splits prod.splits option.splits)

subsection \<open>The store\<close>











subsection \<open>The sync\<close>

lemma rows_loop_Inr:
  "rows_loop body xs = Inr ys \<Longrightarrow> list_all2 (\<lambda>x y. \<exists>r. x = Inr r \<and> body r = Inr y) xs ys"
proof (induction body xs arbitrary: ys rule: rows_loop.induct)
  case (1 body)
  then show ?case by simp
next
  case (2 body e rest)
  then show ?case by simp
next
  case (3 body r rest)
  then show ?case
    by (auto split: sum.splits)
qed

lemma for_rows_Inr:
  assumes "for_rows body rs = Inr ys"
  shows "rows_err rs = None \<and> list_all2 (\<lambda>x y. \<exists>r. x = Inr r \<and> body r = Inr y) (scans rs) ys"
  using assms rows_loop_Inr [of body "scans rs" ys]
  by (auto simp add: for_rows_def split: sum.splits option.splits)

lemma each_Inr:
  "each body xs = Inr ys \<Longrightarrow> list_all2 (\<lambda>x y. body x = Inr y) xs ys"
proof (induction xs arbitrary: ys)
  case Nil
  then show ?case by simp
next
  case (Cons x xs)
  then show ?case
    by (auto split: sum.splits)
qed

lemma scan_view_Inr: "scan_view row = Inr v \<Longrightarrow> \<exists>s n d. row = (s, n, Some d)"
  by (cases row) (auto simp add: scan_view_def split: option.splits)

lemma getViews_Inr:
  assumes "getViews txn = Inr views"
  shows "\<exists>rs. q_views txn = Inr rs \<and> rows_err rs = None \<and>
           (\<forall>row \<in> set (scans rs). \<exists>s n d. row = Inr (s, n, Some d))"
proof -
  from assms obtain rs vs where rs: "q_views txn = Inr rs" and vs: "for_rows scan_view rs = Inr vs"
    by (auto simp add: getViews_def split: sum.splits)
  from for_rows_Inr [OF vs]
  have err: "rows_err rs = None"
    and all: "list_all2 (\<lambda>x y. \<exists>r. x = Inr r \<and> scan_view r = Inr y) (scans rs) vs"
    by simp_all
  have "\<exists>s n d. row = Inr (s, n, Some d)" if "row \<in> set (scans rs)" for row
  proof -
    from that all obtain y r where "row = Inr r" "scan_view r = Inr y"
      by (auto simp add: list_all2_conv_all_nth in_set_conv_nth)
    then show ?thesis
      using scan_view_Inr by blast
  qed
  then show ?thesis
    using rs err by blast
qed

lemma getPgTables_Inr:
  assumes "getPgTables txn = Inr tables"
  shows "(\<exists>constraints. getTableConstraints txn = Inr constraints) \<and>
         (\<forall>t \<in> set tables.
            getTableColumns txn (tbl_schemaName t) (tbl_name t) = Inr (tbl_columns t))"
proof -
  let ?body = "\<lambda>constraints tbl.
      case getTable txn tbl of
        Inl e \<Rightarrow> Inl (GetTableError (tbl_schemaName tbl) (tbl_name tbl) e)
      | Inr tbl1 \<Rightarrow>
          (case getTableColumns txn (tbl_schemaName tbl1) (tbl_name tbl1) of
             Inl e \<Rightarrow> Inl (GetTableColumnsError (tbl_schemaName tbl1) (tbl_name tbl1) e)
           | Inr columns \<Rightarrow>
               Inr (tbl1\<lparr>tbl_columns := columns,
                         tbl_constraints :=
                           constraints (dotted (tbl_schemaName tbl1) (tbl_name tbl1))\<rparr>))"
  from assms obtain constraints rs scanned where
    c: "getTableConstraints txn = Inr constraints" and
    e: "each (?body constraints) scanned = Inr tables"
    by (auto simp add: getPgTables_def split: sum.splits)
  have "getTableColumns txn (tbl_schemaName t) (tbl_name t) = Inr (tbl_columns t)"
    if "t \<in> set tables" for t
  proof -
    from each_Inr [OF e] that obtain x where "?body constraints x = Inr t"
      by (auto simp add: list_all2_conv_all_nth in_set_conv_nth)
    then show ?thesis
      by (auto split: sum.splits)
  qed
  then show ?thesis
    using c by blast
qed

lemma sync_in_tx_Inr:
  assumes "fst (sync_in_tx driver txn databaseName schema0) = Inr schema"
  shows "\<exists>indices tables views extensions.
           getIndices txn = Inr indices \<and> getPgTables txn = Inr tables \<and>
           getViews txn = Inr views \<and> getExtensions txn = Inr extensions \<and>
           tx_Commit txn = None \<and>
           schema = schema0
             \<lparr>s_TableList :=
                map (table_entry
                       (fold (\<lambda>idx. append_at (dotted (idx_schemaName idx) (idx_tableName idx)) idx)
                          indices (\<lambda>key. []))) tables,
              s_ViewList := map (view_entry driver) (enumerate 0 views),
              s_ExtensionList := extensions\<rparr>"
  using assms
  by (auto simp add: sync_in_tx_def Let_def split: sum.splits option.splits)

lemma SyncDBSchema_Inr:
  assumes "fst (SyncDBSchema driver databaseName) = Inr schema"
  shows "\<exists>databases database sqldb txn.
           getDatabases driver = Inr databases \<and>
           find (\<lambda>database. pgdb_name database = databaseName) databases = Some database \<and>
           GetDBConnection driver databaseName = Inr sqldb \<and> BeginTx sqldb = Inr txn \<and>
           fst (sync_in_tx driver txn databaseName
                  \<lparr>s_Name = databaseName, s_CharacterSet = pgdb_encoding database,
                   s_Collation = pgdb_collate database,
                   s_TableList = [], s_ViewList = [], s_ExtensionList = []\<rparr>) = Inr schema"
  using assms
  by (auto simp add: SyncDBSchema_def Let_def case_prod_beta split: sum.splits option.splits)

lemma find_None_names: "x \<notin> f ` set xs \<Longrightarrow> find (\<lambda>d. f d = x) xs = None"
  by (induction xs) auto

lemma fold_collect:
  "fold (\<lambda>database databaseList.
           if excluded (pgdb_name database) \<noteq> None then databaseList
           else databaseList @
                  [\<lparr>dm_Name = pgdb_name database,
                    dm_CharacterSet = pgdb_encoding database,
                    dm_Collation = pgdb_collate database\<rparr>])
        databases acc =
   acc @ map (\<lambda>d. \<lparr>dm_Name = pgdb_name d, dm_CharacterSet = pgdb_encoding d,
                    dm_Collation = pgdb_collate d\<rparr>)
           (filter (\<lambda>d. pgdb_name d \<notin> dom excluded) databases)"
  by (induction databases arbitrary: acc) (auto simp add: domIff)

lemma collect_databases_filter:
  "collect_databases excluded databases =
     map (\<lambda>d. \<lparr>dm_Name = pgdb_name d, dm_CharacterSet = pgdb_encoding d,
                dm_Collation = pgdb_collate d\<rparr>)
       (filter (\<lambda>d. pgdb_name d \<notin> dom excluded) databases)"
  unfolding collect_databases_def using fold_collect [of excluded databases "[]"] by simp

lemma dom_fold_exclude: "dom (fold (\<lambda>k m. m(k \<mapsto> True)) ks m) = dom m \<union> set ks"
  by (induction ks arbitrary: m) auto

lemma dom_excludedDatabaseList:
  "dom excludedDatabaseList = {''bytebase'', ''rdsadmin'', ''cloudsql'', ''cloudsqladmin''}"
  by (auto simp add: excludedDatabaseList_def split: if_splits)

section \<open>The claims\<close>




text \<open>
  Claim C2.  When the payload decodes and its statement is empty after trimming white
  space, \<^verbatim>\<open>RunOnce\<close> returns \<^verbatim>\<open>terminated\<close> true, no result and the error of the empty
  statement; the store is the one it was given and the list of effects is empty: no
  driver connection, no \<^verbatim>\<open>ExecuteMigration\<close>, no database row created or patched, no task
  patch.  Only the executor's completion flag changes.
\<close>

theorem empty_statement_no_writes:
  assumes "json_Unmarshal server (t_Payload task) = Inr payload"
      and "TrimSpace (p_Statement payload) = []"
  shows "RunOnce exec server st task =
           (exec\<lparr>completed := 1\<rparr>, st, [],
            Returned (True, None, Some EmptyCreateDatabaseStatement))"
  using assms by (simp add: RunOnce_def run_body_def)

text \<open>A statement of a space, a tab and a newline.\<close>

theorem empty_statement_no_writes_witness:
  "json_Unmarshal ex_blank_server (t_Payload ex_task) = Inr ex_blank_payload \<and>
   TrimSpace (p_Statement ex_blank_payload) = [] \<and>
   RunOnce NewDatabaseCreateTaskExecutor ex_blank_server (ex_store [ex_synced_row]) ex_task =
     (NewDatabaseCreateTaskExecutor\<lparr>completed := 1\<rparr>, ex_store [ex_synced_row], [],
      Returned (True, None, Some EmptyCreateDatabaseStatement))"
proof -
  have decode: "json_Unmarshal ex_blank_server (t_Payload ex_task) = Inr ex_blank_payload"
    by (simp add: ex_blank_server_def)
  have blank: "TrimSpace (p_Statement ex_blank_payload) = []"
    by (simp add: ex_blank_payload_def TrimSpace_def white_space_def HasPrefix_def)
  show ?thesis
    using empty_statement_no_writes [OF decode blank] decode blank by simp
qed

text \<open>
  Claim C3.  \<^verbatim>\<open>IsCompleted\<close> is false on a new executor, and true on the executor after
  any call of \<^verbatim>\<open>RunOnce\<close>, whatever the call returns and also when it panics; a call
  that returns, returns \<^verbatim>\<open>terminated\<close> true, with or without an error.
\<close>

theorem IsCompleted_after_RunOnce:
  "\<not> IsCompleted NewDatabaseCreateTaskExecutor \<and>
   IsCompleted (exec_of (RunOnce exec server st task)) \<and>
   (outcome_of (RunOnce exec server st task) = Panicked \<or>
    (\<exists>result err. outcome_of (RunOnce exec server st task) = Returned (True, result, err)))"
  using run_body_outcome [of server st task]
  by (simp add: IsCompleted_def NewDatabaseCreateTaskExecutor_def RunOnce_def exec_of_def
      outcome_of_def case_prod_beta)

text \<open>
  Claim C4, as amended.  A snapshot comes out of \<^verbatim>\<open>SyncDBSchema\<close> only when the
  connection and the transaction were opened, the readers of indexes, table constraints,
  tables, the columns of every table, views and extensions all returned without error,
  no row of the view query has a NULL definition, and the commit succeeded; the
  snapshot's tables, views and extensions are then assembled from those results.  In
  particular, when a row of the view query has a NULL definition, \<^verbatim>\<open>SyncDBSchema\<close>
  returns an error and no snapshot.  (An empty, non-NULL definition is not an error: see
  the counterexample below.)
\<close>

theorem no_partial_snapshot:
  "(fst (SyncDBSchema driver databaseName) = Inr schema \<longrightarrow>
      (\<exists>sqldb txn indices constraints tables rs views extensions.
          GetDBConnection driver databaseName = Inr sqldb \<and> BeginTx sqldb = Inr txn \<and>
          getIndices txn = Inr indices \<and>
          getTableConstraints txn = Inr constraints \<and>
          getPgTables txn = Inr tables \<and>
          (\<forall>t \<in> set tables.
             getTableColumns txn (tbl_schemaName t) (tbl_name t) = Inr (tbl_columns t)) \<and>
          q_views txn = Inr rs \<and> rows_err rs = None \<and>
          (\<forall>row \<in> set (scans rs). \<exists>s n d. row = Inr (s, n, Some d)) \<and>
          getViews txn = Inr views \<and>
          getExtensions txn = Inr extensions \<and>
          tx_Commit txn = None \<and>
          s_TableList schema =
            map (table_entry
                   (fold (\<lambda>idx. append_at (dotted (idx_schemaName idx) (idx_tableName idx)) idx)
                      indices (\<lambda>key. []))) tables \<and>
          s_ViewList schema = map (view_entry driver) (enumerate 0 views) \<and>
          s_ExtensionList schema = extensions)) \<and>
   (GetDBConnection driver databaseName = Inr sqldb0 \<longrightarrow> BeginTx sqldb0 = Inr txn0 \<longrightarrow>
    q_views txn0 = Inr rs0 \<longrightarrow> Inr (schemaName, viewName, None) \<in> set (scans rs0) \<longrightarrow>
      (\<exists>e. fst (SyncDBSchema driver databaseName) = Inl e))"
proof -
  have complete: "\<exists>sqldb txn indices constraints tables rs views extensions.
          GetDBConnection driver databaseName = Inr sqldb \<and> BeginTx sqldb = Inr txn \<and>
          getIndices txn = Inr indices \<and>
          getTableConstraints txn = Inr constraints \<and>
          getPgTables txn = Inr tables \<and>
          (\<forall>t \<in> set tables.
             getTableColumns txn (tbl_schemaName t) (tbl_name t) = Inr (tbl_columns t)) \<and>
          q_views txn = Inr rs \<and> rows_err rs = None \<and>
          (\<forall>row \<in> set (scans rs). \<exists>s n d. row = Inr (s, n, Some d)) \<and>
          getViews txn = Inr views \<and>
          getExtensions txn = Inr extensions \<and>
          tx_Commit txn = None \<and>
          s_TableList sch =
            map (table_entry
                   (fold (\<lambda>idx. append_at (dotted (idx_schemaName idx) (idx_tableName idx)) idx)
                      indices (\<lambda>key. []))) tables \<and>
          s_ViewList sch = map (view_entry driver) (enumerate 0 views) \<and>
          s_ExtensionList sch = extensions"
    if ok: "fst (SyncDBSchema driver databaseName) = Inr sch" for sch
  proof -
    from SyncDBSchema_Inr [OF ok] obtain database :: pgDatabaseSchema and sqldb txn where
      conn: "GetDBConnection driver databaseName = Inr sqldb" "BeginTx sqldb = Inr txn" and
      tx: "fst (sync_in_tx driver txn databaseName
                  \<lparr>s_Name = databaseName, s_CharacterSet = pgdb_encoding database,
                   s_Collation = pgdb_collate database,
                   s_TableList = [], s_ViewList = [], s_ExtensionList = []\<rparr>) = Inr sch"
      by auto
    from sync_in_tx_Inr [OF tx] obtain indices tables views extensions where
      parts: "getIndices txn = Inr indices" "getPgTables txn = Inr tables"
        "getViews txn = Inr views" "getExtensions txn = Inr extensions" "tx_Commit txn = None" and
      sch: "sch = \<lparr>s_Name = databaseName, s_CharacterSet = pgdb_encoding database,
                   s_Collation = pgdb_collate database,
                   s_TableList = [], s_ViewList = [], s_ExtensionList = []\<rparr>
             \<lparr>s_TableList :=
                map (table_entry
                       (fold (\<lambda>idx. append_at (dotted (idx_schemaName idx) (idx_tableName idx)) idx)
                          indices (\<lambda>key. []))) tables,
              s_ViewList := map (view_entry driver) (enumerate 0 views),
              s_ExtensionList := extensions\<rparr>"
      by auto
    from getPgTables_Inr [OF parts(2)] obtain constraints where
      tables: "getTableConstraints txn = Inr constraints"
        "\<forall>t \<in> set tables. getTableColumns txn (tbl_schemaName t) (tbl_name t) = Inr (tbl_columns t)"
      by blast
    from getViews_Inr [OF parts(3)] obtain rs where
      views: "q_views txn = Inr rs" "rows_err rs = None"
        "\<forall>row \<in> set (scans rs). \<exists>s n d. row = Inr (s, n, Some d)"
      by blast
    have lists: "s_TableList sch =
            map (table_entry
                   (fold (\<lambda>idx. append_at (dotted (idx_schemaName idx) (idx_tableName idx)) idx)
                      indices (\<lambda>key. []))) tables"
      "s_ViewList sch = map (view_entry driver) (enumerate 0 views)"
      "s_ExtensionList sch = extensions"
      by (simp_all add: sch)
    show ?thesis
      using conn parts tables views lists by blast
  qed
  have null_view: "\<exists>e. fst (SyncDBSchema driver databaseName) = Inl e"
    if conn: "GetDBConnection driver databaseName = Inr sqldb0" "BeginTx sqldb0 = Inr txn0"
      and rs0: "q_views txn0 = Inr rs0" and null: "Inr (schemaName, viewName, None) \<in> set (scans rs0)"
  proof (cases "fst (SyncDBSchema driver databaseName)")
    case (Inl e)
    then show ?thesis by blast
  next
    case (Inr sch)
    from complete [OF Inr] obtain sqldb txn rs where
      "GetDBConnection driver databaseName = Inr sqldb" "BeginTx sqldb = Inr txn"
      "q_views txn = Inr rs" "\<forall>row \<in> set (scans rs). \<exists>s n d. row = Inr (s, n, Some d)"
      by blast
    with conn rs0 have "\<forall>row \<in> set (scans rs0). \<exists>s n d. row = Inr (s, n, Some d)"
      by simp
    with null show ?thesis by auto
  qed
  show ?thesis
    using complete [of schema] null_view by blast
qed

text \<open>A pass that succeeds, and the same database with the definition of its view NULL.\<close>

theorem no_partial_snapshot_witness:
  "fst (SyncDBSchema (ex_driver (Some ''SELECT 1'')) ''shop'') = Inr (ex_snapshot ''SELECT 1'') \<and>
   (\<exists>sqldb txn. GetDBConnection (ex_driver (Some ''SELECT 1'')) ''shop'' = Inr sqldb \<and>
      BeginTx sqldb = Inr txn \<and> tx_Commit txn = None) \<and>
   GetDBConnection (ex_driver None) ''shop'' = Inr \<lparr>BeginTx = Inr (ex_tx None)\<rparr> \<and>
   BeginTx \<lparr>BeginTx = Inr (ex_tx None)\<rparr> = Inr (ex_tx None) \<and>
   q_views (ex_tx None) = Inr (Rows [Inr (''public'', ''v'', None)] None) \<and>
   Inr (''public'', ''v'', None) \<in> set (scans (Rows [Inr (''public'', ''v'', None)] None)) \<and>
   (\<exists>e. fst (SyncDBSchema (ex_driver None) ''shop'') = Inl e)"
proof -
  have ok: "fst (SyncDBSchema (ex_driver (Some ''SELECT 1'')) ''shop'') = Inr (ex_snapshot ''SELECT 1'')"
    by (simp add: ex_sync)
  have conn: "GetDBConnection (ex_driver None) ''shop'' = Inr \<lparr>BeginTx = Inr (ex_tx None)\<rparr>"
    by (simp add: ex_driver_def)
  have started: "BeginTx \<lparr>BeginTx = Inr (ex_tx None)\<rparr> = Inr (ex_tx None)"
    by simp
  have views: "q_views (ex_tx None) = Inr (Rows [Inr (''public'', ''v'', None)] None)"
    by (simp add: ex_tx_def)
  have null: "Inr (''public'', ''v'', None) \<in> set (scans (Rows [Inr (''public'', ''v'', None)] None))"
    by simp
  from no_partial_snapshot [of "ex_driver (Some ''SELECT 1'')" "''shop''" "ex_snapshot ''SELECT 1''"] ok
  have complete: "\<exists>sqldb txn. GetDBConnection (ex_driver (Some ''SELECT 1'')) ''shop'' = Inr sqldb \<and>
      BeginTx sqldb = Inr txn \<and> tx_Commit txn = None"
    by blast
  from no_partial_snapshot [of "ex_driver None" "''shop''" _ "\<lparr>BeginTx = Inr (ex_tx None)\<rparr>"
      "ex_tx None" "Rows [Inr (''public'', ''v'', None)] None" "''public''" "''v''"]
    conn started views null
  have failed: "\<exists>e. fst (SyncDBSchema (ex_driver None) ''shop'') = Inl e"
    by blast
  show ?thesis
    using ok complete conn started views null failed by blast
qed

text \<open>Claim C4 as stated fails: a view whose definition is the empty string, not NULL,
  passes the check of \<^verbatim>\<open>getViews\<close>, and the snapshot is returned with that view in it.\<close>

theorem empty_view_definition_counterexample:
  "q_views (ex_tx (Some [])) = Inr (Rows [Inr (''public'', ''v'', Some [])] None) \<and>
   fst (SyncDBSchema (ex_driver (Some [])) ''shop'') = Inr (ex_snapshot []) \<and>
   map v_Definition (s_ViewList (ex_snapshot [])) = ['''']"
  by (simp add: ex_sync) (simp add: ex_tx_def ex_snapshot_def)

text \<open>
  Claim C5.  What \<^verbatim>\<open>getIndexColumnExpressions\<close> returns on five index definitions.
  With two expression terms in the column list, \<^verbatim>\<open>((a + b))\<close> and \<^verbatim>\<open>((c + d))\<close>, or
  \<^verbatim>\<open>((a, b))\<close> and \<^verbatim>\<open>((c, d))\<close>, the greedy \<^verbatim>\<open>\(\(.*\)\)\<close> runs to the last
  \<^verbatim>\<open>))\<close> and the result is one term holding both, with the comma between them.  A
  single \<^verbatim>\<open>((a, b))\<close> is one term, and plain columns are split at the comma.  With a
  \<^verbatim>\<open>WHERE\<close> clause the greedy \<^verbatim>\<open>\((.*)\)\<close> takes the column list to run to the last
  parenthesis of the statement.
\<close>

theorem expression_terms_merged:
  "getIndexColumnExpressions
     ''CREATE INDEX idx ON public.t USING btree (((a + b)), ((c + d)))'' =
     Inr [''((a + b)), ((c + d))''] \<and>
   getIndexColumnExpressions
     ''CREATE INDEX idx ON public.t USING btree (((a, b)), ((c, d)))'' =
     Inr [''((a, b)), ((c, d))''] \<and>
   getIndexColumnExpressions ''CREATE INDEX idx ON public.t USING btree (((a, b)))'' =
     Inr [''((a, b))''] \<and>
   getIndexColumnExpressions ''CREATE INDEX idx ON public.t USING btree (a, b)'' =
     Inr [''a'', ''b''] \<and>
   getIndexColumnExpressions ''CREATE INDEX idx ON public.t USING btree (a) WHERE (b > 0)'' =
     Inr [''a) WHERE (b > 0'']"
  by (simp add: getIndexColumnExpressions_def get_token_def strip_token_def
      TrimSpace_def white_space_def HasPrefix_def line_of_def)

text \<open>
  Claim C6.  When version, user list and databases are read without error, and the
  package's exclusion map holds the four names it starts with (with or without the
  system databases that an earlier call has added), \<^verbatim>\<open>SyncInstance\<close> returns the
  databases of the instance, in order, whose name is none of \<open>bytebase\<close>, \<open>rdsadmin\<close>,
  \<open>cloudsql\<close>, \<open>cloudsqladmin\<close> or a system database, by equality of strings; each entry
  carries name, character set and collation of the database.  The exclusion map
  afterwards holds exactly those names.
\<close>

theorem instance_sync_database_list:
  assumes version: "getVersion driver = Inr version"
      and users: "getUserList driver = Inr userList"
      and enumerated: "getDatabases driver = Inr databases"
      and state: "dom excluded = dom excludedDatabaseList \<or>
                  dom excluded = dom excludedDatabaseList \<union> set systemDatabases"
  shows "fst (SyncInstance systemDatabases excluded driver) =
           Inr \<lparr>im_Version = version, im_UserList = userList,
                im_DatabaseList =
                  map (\<lambda>d. \<lparr>dm_Name = pgdb_name d, dm_CharacterSet = pgdb_encoding d,
                             dm_Collation = pgdb_collate d\<rparr>)
                    (filter (\<lambda>d. pgdb_name d \<notin>
                                {''bytebase'', ''rdsadmin'', ''cloudsql'', ''cloudsqladmin''} \<union>
                                set systemDatabases) databases)\<rparr> \<and>
         dom (snd (SyncInstance systemDatabases excluded driver)) =
           dom excludedDatabaseList \<union> set systemDatabases"
proof -
  let ?excluded' = "fold (\<lambda>k m. m(k \<mapsto> True)) systemDatabases excluded"
  have dom': "dom ?excluded' =
      {''bytebase'', ''rdsadmin'', ''cloudsql'', ''cloudsqladmin''} \<union> set systemDatabases"
    using state by (auto simp add: dom_fold_exclude dom_excludedDatabaseList)
  have "SyncInstance systemDatabases excluded driver =
          (Inr \<lparr>im_Version = version, im_UserList = userList,
                im_DatabaseList = collect_databases ?excluded' databases\<rparr>, ?excluded')"
    using version users enumerated by (simp add: SyncInstance_def Let_def)
  then show ?thesis
    by (simp add: collect_databases_filter dom' dom_excludedDatabaseList)
qed

text \<open>\<open>bytebase\<close> and \<open>template0\<close> are dropped, \<open>Bytebase\<close> is kept.\<close>

theorem instance_sync_database_list_witness:
  "getVersion (ex_driver None) = Inr ''14.2'' \<and>
   getUserList (ex_driver None) = Inr [\<lparr>u_Name = ''admin'', u_Grant = ''superuser''\<rparr>] \<and>
   getDatabases (ex_driver None) = Inr ex_databases \<and>
   dom excludedDatabaseList = dom excludedDatabaseList \<and>
   fst (SyncInstance [''template0'', ''template1''] excludedDatabaseList (ex_driver None)) =
     Inr \<lparr>im_Version = ''14.2'',
          im_UserList = [\<lparr>u_Name = ''admin'', u_Grant = ''superuser''\<rparr>],
          im_DatabaseList =
            [\<lparr>dm_Name = ''postgres'', dm_CharacterSet = ''UTF8'', dm_Collation = ''C''\<rparr>,
             \<lparr>dm_Name = ''Bytebase'', dm_CharacterSet = ''LATIN1'', dm_Collation = ''de_DE''\<rparr>,
             \<lparr>dm_Name = ''shop'', dm_CharacterSet = ''UTF8'', dm_Collation = ''en_US''\<rparr>]\<rparr>"
proof -
  have version: "getVersion (ex_driver None) = Inr ''14.2''"
    by (simp add: ex_driver_def)
  have users: "getUserList (ex_driver None) = Inr [\<lparr>u_Name = ''admin'', u_Grant = ''superuser''\<rparr>]"
    by (simp add: ex_driver_def getUserList_def for_rows_def)
  have enumerated: "getDatabases (ex_driver None) = Inr ex_databases"
    by (simp add: ex_driver_def)
  have state: "dom excludedDatabaseList = dom excludedDatabaseList \<or>
               dom excludedDatabaseList = dom excludedDatabaseList \<union> set [''template0'', ''template1'']"
    by simp
  show ?thesis
    using instance_sync_database_list [OF version users enumerated state]
      version users enumerated
    by (simp add: ex_databases_def)
qed

text \<open>
  Claim C7.  What \<^verbatim>\<open>RunOnce\<close> does on a store that finds no principal and reports no
  error: after the driver is opened and the start is logged, reading \<^verbatim>\<open>creator.Name\<close>
  panics; nothing is logged about the creator, \<^verbatim>\<open>ExecuteMigration\<close> is not called, the
  store is untouched, and the call returns nothing (the deferred close of the driver and
  the completion flag still run).  With an error from the same lookup the failure is
  logged, the migration is executed and the run returns its result without an error.
\<close>

theorem nil_principal_panics:
  "GetPrincipalByID ex_nil_principal_server (t_CreatorID ex_task) = (None, None) \<and>
   RunOnce NewDatabaseCreateTaskExecutor ex_nil_principal_server (ex_store []) ex_task =
     (NewDatabaseCreateTaskExecutor\<lparr>completed := 1\<rparr>, ex_store [],
      [DriverOpen, LogDebug ''Start creating database...'', DriverClose], Panicked) \<and>
   GetPrincipalByID ex_server (t_CreatorID ex_task) = (None, Some (External ''principal'')) \<and>
   trace_of (RunOnce NewDatabaseCreateTaskExecutor ex_server (ex_store []) ex_task) =
     [DriverOpen, LogDebug ''Start creating database...'',
      LogError ''Failed to fetch creator for composing the migration info'',
      LogError ''Failed to fetch containing issue for composing the migration info'',
      LogError_of (IssueNotFoundWithPipelineID 5),
      Call_ExecuteMigration (new_MigrationInfo ex_server ex_task ex_payload)
        ''CREATE DATABASE shop;'',
      Call_CreateDatabase
        \<lparr>dc_CreatorID = 1, dc_ProjectID = 7, dc_InstanceID = 2, dc_EnvironmentID = 4,
         dc_Name = ''shop'', dc_CharacterSet = ''UTF8'', dc_Collation = ''C'',
         dc_Labels = Some [], dc_SchemaVersion = ''v1''\<rparr>,
      Call_PatchTask \<lparr>tp_ID = 11, tp_UpdaterID = 1, tp_DatabaseID = Some 1\<rparr>,
      DriverClose] \<and>
   mi_Creator (new_MigrationInfo ex_server ex_task ex_payload) = [] \<and>
   outcome_of (RunOnce NewDatabaseCreateTaskExecutor ex_server (ex_store []) ex_task) =
     Returned (True,
       Some \<lparr>r_Detail = Created_database ''shop'', r_MigrationID = 42, r_Version = ''v1''\<rparr>,
       None)"
  by (simp add: ex_defs run_defs trace_of_def outcome_of_def)

text \<open>
  Claim C8, as amended.  When \<^verbatim>\<open>RunOnce\<close> returns a result, \<^verbatim>\<open>ExecuteMigration\<close> has
  succeeded and the result holds the detail for the payload's database name, the
  migration id that \<^verbatim>\<open>ExecuteMigration\<close> returned, and the version of the migration
  descriptor, which is the payload's schema version; \<^verbatim>\<open>terminated\<close> is true and the
  error is nil.  The second value returned by \<^verbatim>\<open>ExecuteMigration\<close> does not enter the
  result.
\<close>

theorem result_of_successful_run:
  fixes server st task payload exec
  defines "R \<equiv> RunOnce exec server st task"
      and "statement \<equiv> TrimSpace (p_Statement payload)"
  assumes decode: "json_Unmarshal server (t_Payload task) = Inr payload"
      and success: "result_of R = Some res"
  shows "\<exists>mi logs migrationID echoed.
           compose_MigrationInfo server task payload = Some (mi, logs) \<and>
           ExecuteMigration server mi statement = Inr (migrationID, echoed) \<and>
           res = \<lparr>r_Detail = Created_database (p_DatabaseName payload),
                  r_MigrationID = migrationID,
                  r_Version = p_SchemaVersion payload\<rparr> \<and>
           mi_Version mi = p_SchemaVersion payload \<and>
           outcome_of R = Returned (True, Some res, None)"
proof -
  have body: "outcome_result (snd (snd (run_body server st task))) = Some res"
    using success by (simp add: R_def RunOnce_def result_of_def outcome_of_def case_prod_beta)
  from run_body_result [OF decode body]
  obtain mi logs where nonempty: "TrimSpace (p_Statement payload) \<noteq> []"
    and driver: "getAdminDatabaseDriver server (t_Instance task) = None"
    and composed: "compose_MigrationInfo server task payload = Some (mi, logs)"
    by auto
  obtain st' tr r where m: "migrate_and_record server st task payload mi statement = (st', tr, r)"
    by (cases "migrate_and_record server st task payload mi statement") auto
  have R: "R = (exec\<lparr>completed := 1\<rparr>, st',
            [DriverOpen, LogDebug ''Start creating database...''] @ logs @ tr @ [DriverClose],
            Returned r)"
    unfolding R_def
    using RunOnce_with_driver [OF decode nonempty driver composed] m
    by (simp add: statement_def)
  have "fst (snd (snd (snd (migrate_and_record server st task payload mi statement)))) = Some res"
    using success by (cases r) (simp add: R m result_of_def outcome_of_def outcome_result_def)
  from migrate_and_record_result [OF this]
  obtain migrationID echoed where
    "ExecuteMigration server mi statement = Inr (migrationID, echoed)"
    "res = \<lparr>r_Detail = Created_database (p_DatabaseName payload),
            r_MigrationID = migrationID, r_Version = mi_Version mi\<rparr>"
    "snd (snd (migrate_and_record server st task payload mi statement)) = (True, Some res, None)"
    by blast
  moreover have "mi_Version mi = p_SchemaVersion payload"
    using composed by (rule compose_MigrationInfo_Version)
  ultimately show ?thesis
    using composed by (simp add: R m outcome_of_def)
qed

text \<open>A successful run of the example task.\<close>

theorem result_of_successful_run_witness:
  "json_Unmarshal ex_server (t_Payload ex_task) = Inr ex_payload \<and>
   result_of (RunOnce NewDatabaseCreateTaskExecutor ex_server (ex_store []) ex_task) =
     Some \<lparr>r_Detail = Created_database ''shop'', r_MigrationID = 42, r_Version = ''v1''\<rparr> \<and>
   outcome_of (RunOnce NewDatabaseCreateTaskExecutor ex_server (ex_store []) ex_task) =
     Returned (True,
       Some \<lparr>r_Detail = Created_database ''shop'', r_MigrationID = 42, r_Version = ''v1''\<rparr>,
       None)"
proof -
  have decode: "json_Unmarshal ex_server (t_Payload ex_task) = Inr ex_payload"
    by (simp add: ex_server_def)
  have success: "result_of (RunOnce NewDatabaseCreateTaskExecutor ex_server (ex_store []) ex_task) =
     Some \<lparr>r_Detail = Created_database ''shop'', r_MigrationID = 42, r_Version = ''v1''\<rparr>"
    by (simp add: ex_defs run_defs result_of_def outcome_of_def outcome_result_def)
  show ?thesis
    using result_of_successful_run [OF decode success] decode success by auto
qed

text \<open>Claim C8 as stated fails: the driver answers \<open>v2\<close>, the result carries the
  payload's \<open>v1\<close>.\<close>

theorem version_not_echo_counterexample:
  "compose_MigrationInfo ex_server ex_task ex_payload =
     Some (new_MigrationInfo ex_server ex_task ex_payload,
           [LogError ''Failed to fetch creator for composing the migration info'',
            LogError ''Failed to fetch containing issue for composing the migration info'',
            LogError_of (IssueNotFoundWithPipelineID 5)]) \<and>
   ExecuteMigration ex_server (new_MigrationInfo ex_server ex_task ex_payload)
     (TrimSpace (p_Statement ex_payload)) = Inr (42, ''v2'') \<and>
   result_of (RunOnce NewDatabaseCreateTaskExecutor ex_server (ex_store []) ex_task) =
     Some \<lparr>r_Detail = Created_database ''shop'', r_MigrationID = 42, r_Version = ''v1''\<rparr> \<and>
   ''v1'' \<noteq> ''v2''"
  by (simp add: ex_defs run_defs result_of_def outcome_of_def outcome_result_def)

text \<open>
  Claim C9.  No call of \<^verbatim>\<open>RunOnce\<close> returns \<^verbatim>\<open>terminated\<close> false: for every
  executor, server, store and task the call returns \<^verbatim>\<open>terminated\<close> true, or it does
  not return at all.  It does not return exactly when the payload decodes, the statement
  is not blank, the driver is there and the store answers the lookup of the creator with
  a nil principal and a nil error.
\<close>

theorem RunOnce_always_terminated:
  "(outcome_of (RunOnce exec server st task) = Panicked \<or>
    (\<exists>result err. outcome_of (RunOnce exec server st task) = Returned (True, result, err))) \<and>
   (outcome_of (RunOnce exec server st task) = Panicked \<longleftrightarrow>
      (\<exists>payload. json_Unmarshal server (t_Payload task) = Inr payload \<and>
         TrimSpace (p_Statement payload) \<noteq> [] \<and>
         getAdminDatabaseDriver server (t_Instance task) = None \<and>
         GetPrincipalByID server (t_CreatorID task) = (None, None)))"
  using run_body_outcome [of server st task] run_body_Panicked [of server st task]
  by (simp add: RunOnce_def outcome_of_def case_prod_beta)

text \<open>
  Claim C10.  Let the databases of the instance be enumerated without error.  If the
  requested name is not among them, \<^verbatim>\<open>SyncDBSchema\<close> returns the not-found error with
  an empty list of connection events: no connection was asked for.  If a snapshot is
  returned, the name is among them and the snapshot's character set and collation are
  those of the first entry with that name.
\<close>

theorem database_not_found_before_connecting:
  assumes enumerated: "getDatabases driver = Inr databases"
  shows "(databaseName \<notin> pgdb_name ` set databases \<longrightarrow>
            SyncDBSchema driver databaseName = (Inl (NotFound databaseName), [])) \<and>
         (fst (SyncDBSchema driver databaseName) = Inr schema \<longrightarrow>
            (\<exists>database.
               find (\<lambda>database. pgdb_name database = databaseName) databases = Some database \<and>
               s_CharacterSet schema = pgdb_encoding database \<and>
               s_Collation schema = pgdb_collate database))"
proof (intro conjI impI)
  assume "databaseName \<notin> pgdb_name ` set databases"
  then have "find (\<lambda>database. pgdb_name database = databaseName) databases = None"
    by (rule find_None_names)
  then show "SyncDBSchema driver databaseName = (Inl (NotFound databaseName), [])"
    using enumerated by (simp add: SyncDBSchema_def)
next
  assume ok: "fst (SyncDBSchema driver databaseName) = Inr schema"
  from SyncDBSchema_Inr [OF ok] enumerated
  obtain database :: pgDatabaseSchema and txn where
    found: "find (\<lambda>database. pgdb_name database = databaseName) databases = Some database" and
    tx: "fst (sync_in_tx driver txn databaseName
                  \<lparr>s_Name = databaseName, s_CharacterSet = pgdb_encoding database,
                   s_Collation = pgdb_collate database,
                   s_TableList = [], s_ViewList = [], s_ExtensionList = []\<rparr>) = Inr schema"
    by auto
  from sync_in_tx_Inr [OF tx]
  have "s_CharacterSet schema = pgdb_encoding database \<and> s_Collation schema = pgdb_collate database"
    by auto
  with found show "\<exists>database.
       find (\<lambda>database. pgdb_name database = databaseName) databases = Some database \<and>
       s_CharacterSet schema = pgdb_encoding database \<and>
       s_Collation schema = pgdb_collate database"
    by blast
qed

text \<open>\<open>orders\<close> is not a database of the example instance, \<open>shop\<close> is.\<close>

theorem database_not_found_before_connecting_witness:
  "getDatabases (ex_driver (Some ''SELECT 1'')) = Inr ex_databases \<and>
   ''orders'' \<notin> pgdb_name ` set ex_databases \<and>
   SyncDBSchema (ex_driver (Some ''SELECT 1'')) ''orders'' = (Inl (NotFound ''orders''), []) \<and>
   fst (SyncDBSchema (ex_driver (Some ''SELECT 1'')) ''shop'') = Inr (ex_snapshot ''SELECT 1'') \<and>
   find (\<lambda>database. pgdb_name database = ''shop'') ex_databases =
     Some \<lparr>pgdb_name = ''shop'', pgdb_encoding = ''UTF8'', pgdb_collate = ''en_US''\<rparr> \<and>
   s_CharacterSet (ex_snapshot ''SELECT 1'') = ''UTF8'' \<and>
   s_Collation (ex_snapshot ''SELECT 1'') = ''en_US''"
proof -
  have enumerated: "getDatabases (ex_driver (Some ''SELECT 1'')) = Inr ex_databases"
    by (simp add: ex_driver_def)
  have absent: "''orders'' \<notin> pgdb_name ` set ex_databases"
    by (simp add: ex_databases_def)
  have ok: "fst (SyncDBSchema (ex_driver (Some ''SELECT 1'')) ''shop'') = Inr (ex_snapshot ''SELECT 1'')"
    by (simp add: ex_sync)
  have found: "find (\<lambda>database. pgdb_name database = ''shop'') ex_databases =
     Some \<lparr>pgdb_name = ''shop'', pgdb_encoding = ''UTF8'', pgdb_collate = ''en_US''\<rparr>"
    by (simp add: ex_databases_def)
  show ?thesis
    using database_not_found_before_connecting [OF enumerated, of "''orders''"]
      database_not_found_before_connecting [OF enumerated, of "''shop''" "ex_snapshot ''SELECT 1''"]
      enumerated absent ok found
    by auto
qed

end
